theory Spec2Isabelle
  imports Complex_Main
begin

section \<open>The spatial organizer of \<^verbatim>\<open>backend/services/clustering.py\<close>\<close>

text \<open>
  The module \<^verbatim>\<open>clustering.py\<close> defines the class \<^verbatim>\<open>SpatialOrganizer\<close>. Its methods are
  embedded here as HOL functions of the same names (a leading underscore is dropped, as
  an Isabelle name cannot start with one).

  Conventions of the embedding:
  \<^item> a Python \<^verbatim>\<open>float\<close> is a \<^typ>\<open>real\<close>: arithmetic is exact, there is no rounding, no
    infinity and no NaN;
  \<^item> a one-dimensional numpy array is a \<^typ>\<open>real list\<close>, a two-dimensional one the list
    of its rows;
  \<^item> an exception is a value \<open>Inl e\<close> of the sum type \<open>py_error + 'a\<close>;
  \<^item> scikit-learn and umap are not part of the repository: what the module calls from
    them is a record of functions, the parameter \<open>L\<close> of every method that uses them;
  \<^item> the attributes \<^verbatim>\<open>self.pca\<close>, \<^verbatim>\<open>self.cluster_model\<close> and \<^verbatim>\<open>self.fitted\<close> are written
    and never read by the module, so they are left out; \<^verbatim>\<open>self.n_components\<close> is the
    constructor's default 3, as in the module's singleton.
\<close>

subsection \<open>Errors, arrays and numpy primitives\<close>

datatype py_error = ImportError | ValueError | IndexError | NameError

type_synonym vec = "real list"
type_synonym ndarray = "real list list"

text \<open>\<^verbatim>\<open>np.array(embeddings)\<close> on a list of lists of floats: rows of unequal length raise
  \<^verbatim>\<open>ValueError\<close> (inhomogeneous shape).\<close>

definition np_array :: "real list list \<Rightarrow> py_error + ndarray" where
  "np_array rows =
     (case rows of
        [] \<Rightarrow> Inr []
      | r # rs \<Rightarrow> if list_all (\<lambda>q. length q = length r) rs then Inr rows else Inl ValueError)"

text \<open>\<^verbatim>\<open>a.shape[1]\<close> of a two-dimensional array with at least one row.\<close>

definition shape1 :: "ndarray \<Rightarrow> nat" where
  "shape1 a = (case a of [] \<Rightarrow> 0 | r # _ \<Rightarrow> length r)"

definition np_size :: "ndarray \<Rightarrow> nat" where
  "np_size a = length a * shape1 a"

definition np_zeros :: "nat \<Rightarrow> nat \<Rightarrow> ndarray" where
  "np_zeros n m = replicate n (replicate m 0)"

definition np_hstack :: "ndarray \<Rightarrow> ndarray \<Rightarrow> ndarray" where
  "np_hstack a b = map2 (@) a b"

text \<open>\<^verbatim>\<open>np.dot\<close> of two one-dimensional arrays: shapes that differ raise \<^verbatim>\<open>ValueError\<close>.\<close>

definition np_dot :: "vec \<Rightarrow> vec \<Rightarrow> py_error + real" where
  "np_dot a b =
     (if length a = length b then Inr (sum_list (map2 (*) a b)) else Inl ValueError)"

definition linalg_norm :: "vec \<Rightarrow> real" where
  "linalg_norm v = sqrt (sum_list (map (\<lambda>t. t * t) v))"

definition np_clip :: "real \<Rightarrow> real \<Rightarrow> real \<Rightarrow> real" where
  "np_clip v lo hi = min (max v lo) hi"

text \<open>\<^verbatim>\<open>np.max\<close> of a one-dimensional array; the empty array raises \<^verbatim>\<open>ValueError\<close>.\<close>

fun np_max :: "real list \<Rightarrow> py_error + real" where
  "np_max [] = Inl ValueError"
| "np_max (v # vs) = Inr (fold max vs v)"

text \<open>\<^verbatim>\<open>np.mean(a, axis=0)\<close>: the mean of every column.\<close>

definition mean_axis0 :: "ndarray \<Rightarrow> vec" where
  "mean_axis0 a = map (\<lambda>c. sum_list (map (\<lambda>r. r ! c) a) / real (length a)) [0..<shape1 a]"

text \<open>\<^verbatim>\<open>a - m\<close> with the row \<open>m\<close> broadcast over the rows of \<open>a\<close>, and \<^verbatim>\<open>a * s\<close>.\<close>

definition sub_rows :: "ndarray \<Rightarrow> vec \<Rightarrow> ndarray" where
  "sub_rows a m = map (\<lambda>r. map2 (-) r m) a"

definition scale_rows :: "ndarray \<Rightarrow> real \<Rightarrow> ndarray" where
  "scale_rows a s = map (map (\<lambda>t. t * s)) a"

subsection \<open>Similarity engine\<close>

definition cosine_similarity :: "vec \<Rightarrow> vec \<Rightarrow> py_error + real" where
  "cosine_similarity vec1 vec2 =
     (case np_dot vec1 vec2 of
        Inl e \<Rightarrow> Inl e
      | Inr dot_product \<Rightarrow>
          (let norm1 = linalg_norm vec1; norm2 = linalg_norm vec2
           in if norm1 = 0 \<or> norm2 = 0 then Inr 0
              else Inr (np_clip (dot_product / (norm1 * norm2)) (- 1) 1)))"

subsection \<open>The libraries the module calls\<close>

text \<open>
  What the module uses of scikit-learn and umap. \<open>tsne_importable\<close>, \<open>umap_importable\<close>
  and \<open>hdbscan_importable\<close> say whether the corresponding \<^verbatim>\<open>import\<close> succeeds. Each fit
  takes the hyper-parameters the module passes and the array, and returns its result or
  raises: \<open>tsne_fit_transform perplexity\<close>, \<open>umap_fit_transform n_neighbors\<close>,
  \<open>pca_fit_transform n_components\<close>, \<open>kmeans_fit_predict n_clusters\<close>,
  \<open>hdbscan_fit_predict min_cluster_size\<close>, \<open>dbscan_fit_predict eps min_samples\<close>, and
  \<open>kmeans_inertia k\<close> for the attribute \<^verbatim>\<open>inertia_\<close> of a fitted \<^verbatim>\<open>KMeans(n_clusters=k)\<close>.
\<close>

record sklearn =
  scaler_fit_transform :: "ndarray \<Rightarrow> py_error + ndarray"
  pca_fit_transform :: "nat \<Rightarrow> ndarray \<Rightarrow> py_error + ndarray"
  tsne_importable :: bool
  tsne_fit_transform :: "nat \<Rightarrow> ndarray \<Rightarrow> py_error + ndarray"
  umap_importable :: bool
  umap_fit_transform :: "nat \<Rightarrow> ndarray \<Rightarrow> py_error + ndarray"
  hdbscan_importable :: bool
  kmeans_fit_predict :: "int \<Rightarrow> ndarray \<Rightarrow> py_error + int list"
  hdbscan_fit_predict :: "nat \<Rightarrow> ndarray \<Rightarrow> py_error + int list"
  dbscan_fit_predict :: "real \<Rightarrow> nat \<Rightarrow> ndarray \<Rightarrow> py_error + int list"
  kmeans_inertia :: "nat \<Rightarrow> ndarray \<Rightarrow> py_error + real"

text \<open>
  The head of the module (lines 8 to 13): \<^verbatim>\<open>HAS_HDBSCAN\<close> is whether \<^verbatim>\<open>HDBSCAN\<close> could be
  imported, and the name \<^verbatim>\<open>DBSCAN\<close> is imported only in the \<^verbatim>\<open>except ImportError\<close> branch, so
  it is bound exactly when \<^verbatim>\<open>HDBSCAN\<close> could not be imported.
\<close>

definition HAS_HDBSCAN :: "sklearn \<Rightarrow> bool" where
  "HAS_HDBSCAN L = hdbscan_importable L"

definition DBSCAN_bound :: "sklearn \<Rightarrow> bool" where
  "DBSCAN_bound L = (\<not> hdbscan_importable L)"

text \<open>
  The documented shapes of the libraries' results: a projection onto \<open>k\<close> components of
  an array of \<open>n\<close> rows has \<open>n\<close> rows and \<open>k\<close> columns (t-SNE and UMAP are constructed
  with \<^verbatim>\<open>n_components=3\<close>), and a clustering of \<open>n\<close> rows returns \<open>n\<close> labels.
\<close>

definition sklearn_shapes :: "sklearn \<Rightarrow> bool" where
  "sklearn_shapes L \<longleftrightarrow>
     (\<forall>k a p. pca_fit_transform L k a = Inr p \<longrightarrow>
        length p = length a \<and> list_all (\<lambda>r. length r = k) p)
   \<and> (\<forall>k a p. tsne_fit_transform L k a = Inr p \<longrightarrow>
        length p = length a \<and> list_all (\<lambda>r. length r = 3) p)
   \<and> (\<forall>k a p. umap_fit_transform L k a = Inr p \<longrightarrow>
        length p = length a \<and> list_all (\<lambda>r. length r = 3) p)
   \<and> (\<forall>scaled a. scaler_fit_transform L a = Inr scaled \<longrightarrow> length scaled = length a)"

definition sklearn_labels :: "sklearn \<Rightarrow> bool" where
  "sklearn_labels L \<longleftrightarrow>
     (\<forall>k a ls. kmeans_fit_predict L k a = Inr ls \<longrightarrow> length ls = length a)
   \<and> (\<forall>m a ls. hdbscan_fit_predict L m a = Inr ls \<longrightarrow> length ls = length a)
   \<and> (\<forall>e m a ls. dbscan_fit_predict L e m a = Inr ls \<longrightarrow> length ls = length a)"

subsection \<open>Projector\<close>

record position =
  pos_x :: real
  pos_y :: real
  pos_z :: real

definition pca_positions :: "sklearn \<Rightarrow> ndarray \<Rightarrow> py_error + ndarray" where
  "pca_positions L embeddings =
     (let n_samples = length embeddings;
          n_components = min 3 (min n_samples (shape1 embeddings))
      in if n_samples = 1 then Inr (np_zeros 1 3)
         else case scaler_fit_transform L embeddings of
                Inl e \<Rightarrow> Inl e
              | Inr embeddings_scaled \<Rightarrow>
                  (case pca_fit_transform L n_components embeddings_scaled of
                     Inl e \<Rightarrow> Inl e
                   | Inr positions \<Rightarrow>
                       if shape1 positions < 3
                       then Inr (np_hstack positions
                                   (np_zeros (length positions) (3 - shape1 positions)))
                       else Inr positions))"

text \<open>The \<^verbatim>\<open>try\<close> block of \<open>tsne_positions\<close> and \<open>umap_positions\<close> holds the import
  and the fit; only \<^verbatim>\<open>ImportError\<close> is caught, and every other exception leaves the method.\<close>

definition tsne_positions :: "sklearn \<Rightarrow> ndarray \<Rightarrow> py_error + ndarray" where
  "tsne_positions L embeddings =
     (case (if \<not> tsne_importable L then Inl ImportError
            else let n_samples = length embeddings
                 in if n_samples = 1 then Inr (np_zeros 1 3)
                    else tsne_fit_transform L (min 30 (n_samples - 1)) embeddings) of
        Inl ImportError \<Rightarrow> pca_positions L embeddings
      | Inl e \<Rightarrow> Inl e
      | Inr positions \<Rightarrow> Inr positions)"

definition umap_positions :: "sklearn \<Rightarrow> ndarray \<Rightarrow> py_error + ndarray" where
  "umap_positions L embeddings =
     (case (if \<not> umap_importable L then Inl ImportError
            else let n_samples = length embeddings
                 in if n_samples = 1 then Inr (np_zeros 1 3)
                    else umap_fit_transform L (min 15 (n_samples - 1)) embeddings) of
        Inl ImportError \<Rightarrow> pca_positions L embeddings
      | Inl e \<Rightarrow> Inl e
      | Inr positions \<Rightarrow> Inr positions)"

text \<open>The two steps of \<open>normalize_positions\<close>: centring, and the largest norm of a row.\<close>

definition centred :: "ndarray \<Rightarrow> ndarray" where
  "centred positions = sub_rows positions (mean_axis0 positions)"

definition max_dist_of :: "ndarray \<Rightarrow> py_error + real" where
  "max_dist_of positions = np_max (map linalg_norm positions)"

definition normalize_positions :: "ndarray \<Rightarrow> py_error + ndarray" where
  "normalize_positions positions =
     (if np_size positions = 0 then Inr positions
      else case max_dist_of (centred positions) of
             Inl e \<Rightarrow> Inl e
           | Inr max_dist \<Rightarrow>
               if max_dist > 0 then Inr (scale_rows (centred positions) (10 / max_dist))
               else Inr (centred positions))"

text \<open>The \<^verbatim>\<open>if\<close>/\<^verbatim>\<open>elif\<close> chain of \<open>calculate_3d_positions\<close> that selects the projection.\<close>

definition projected_positions :: "sklearn \<Rightarrow> ndarray \<Rightarrow> string \<Rightarrow> py_error + ndarray" where
  "projected_positions L embeddings_array method =
     (if method = ''pca'' then pca_positions L embeddings_array
      else if method = ''tsne'' then tsne_positions L embeddings_array
      else if method = ''umap'' then umap_positions L embeddings_array
      else pca_positions L embeddings_array)"

text \<open>The final loop reads \<^verbatim>\<open>pos[0]\<close>, \<^verbatim>\<open>pos[1]\<close> and \<^verbatim>\<open>pos[2]\<close> of every row.\<close>

fun position_of_row :: "vec \<Rightarrow> py_error + position" where
  "position_of_row (a # b # c # _) = Inr \<lparr>pos_x = a, pos_y = b, pos_z = c\<rparr>"
| "position_of_row _ = Inl IndexError"

fun to_dicts :: "ndarray \<Rightarrow> py_error + position list" where
  "to_dicts [] = Inr []"
| "to_dicts (r # rs) =
     (case position_of_row r of
        Inl e \<Rightarrow> Inl e
      | Inr p \<Rightarrow> (case to_dicts rs of Inl e \<Rightarrow> Inl e | Inr ps \<Rightarrow> Inr (p # ps)))"

definition calculate_3d_positions ::
  "sklearn \<Rightarrow> real list list \<Rightarrow> string \<Rightarrow> py_error + position list" where
  "calculate_3d_positions L embeddings method =
     (if embeddings = [] then Inr []
      else case np_array embeddings of
             Inl e \<Rightarrow> Inl e
           | Inr embeddings_array \<Rightarrow>
               (case projected_positions L embeddings_array method of
                  Inl e \<Rightarrow> Inl e
                | Inr positions \<Rightarrow>
                    (case normalize_positions positions of
                       Inl e \<Rightarrow> Inl e
                     | Inr normalized \<Rightarrow> to_dicts normalized)))"

text \<open>Measures of a returned list of positions: the mean of each coordinate and the
  Euclidean distance of a position from the origin.\<close>

definition centroid :: "position list \<Rightarrow> position" where
  "centroid ps =
     \<lparr>pos_x = sum_list (map pos_x ps) / real (length ps),
      pos_y = sum_list (map pos_y ps) / real (length ps),
      pos_z = sum_list (map pos_z ps) / real (length ps)\<rparr>"

definition origin :: position where
  "origin = \<lparr>pos_x = 0, pos_y = 0, pos_z = 0\<rparr>"

definition distance_from_origin :: "position \<Rightarrow> real" where
  "distance_from_origin p = sqrt (pos_x p * pos_x p + pos_y p * pos_y p + pos_z p * pos_z p)"

subsection \<open>Cluster assigner\<close>

text \<open>\<^verbatim>\<open>method == "kmeans" and n_clusters\<close>: the count when the test succeeds. \<^verbatim>\<open>None\<close> and
  0 are false in Python.\<close>

definition kmeans_requested :: "string \<Rightarrow> int option \<Rightarrow> int option" where
  "kmeans_requested method n_clusters =
     (case n_clusters of
        None \<Rightarrow> None
      | Some k \<Rightarrow> if method = ''kmeans'' \<and> k \<noteq> 0 then Some k else None)"

definition cluster_documents ::
  "sklearn \<Rightarrow> real list list \<Rightarrow> string \<Rightarrow> int option \<Rightarrow> py_error + int list" where
  "cluster_documents L embeddings method n_clusters =
     (if embeddings = [] then Inr []
      else case np_array embeddings of
             Inl e \<Rightarrow> Inl e
           | Inr embeddings_array \<Rightarrow>
               (let n_samples = length embeddings_array
                in if n_samples < 2 then Inr (replicate n_samples 0)
                   else case kmeans_requested method n_clusters of
                          Some k \<Rightarrow>
                            kmeans_fit_predict L (min k (int n_samples)) embeddings_array
                        | None \<Rightarrow>
                            if method = ''hdbscan'' \<and> HAS_HDBSCAN L
                            then hdbscan_fit_predict L (max 2 (n_samples div 10)) embeddings_array
                            else if DBSCAN_bound L
                            then dbscan_fit_predict L (1 / 2) 2 embeddings_array
                            else Inl NameError))"

text \<open>The loop of \<open>suggest_optimal_clusters\<close> that fits one \<^verbatim>\<open>KMeans\<close> per \<open>k\<close>.\<close>

fun fit_inertias :: "sklearn \<Rightarrow> ndarray \<Rightarrow> nat list \<Rightarrow> py_error + real list" where
  "fit_inertias L a [] = Inr []"
| "fit_inertias L a (k # ks) =
     (case kmeans_inertia L k a of
        Inl e \<Rightarrow> Inl e
      | Inr v \<Rightarrow> (case fit_inertias L a ks of Inl e \<Rightarrow> Inl e | Inr vs \<Rightarrow> Inr (v # vs)))"

definition second_derivative :: "real list \<Rightarrow> real list" where
  "second_derivative inertias =
     map (\<lambda>i. inertias ! (i + 1) - 2 * inertias ! i + inertias ! (i - 1))
       [1..<length inertias - 1]"

text \<open>\<^verbatim>\<open>np.argmax\<close>: the first index of the largest entry; the empty array raises.\<close>

fun argmax_from :: "real list \<Rightarrow> nat \<Rightarrow> nat \<Rightarrow> real \<Rightarrow> nat" where
  "argmax_from [] i best_i best_v = best_i"
| "argmax_from (v # vs) i best_i best_v =
     (if v > best_v then argmax_from vs (Suc i) i v else argmax_from vs (Suc i) best_i best_v)"

fun np_argmax :: "real list \<Rightarrow> py_error + nat" where
  "np_argmax [] = Inl ValueError"
| "np_argmax (v # vs) = Inr (argmax_from vs 1 0 v)"

definition suggest_optimal_clusters :: "sklearn \<Rightarrow> real list list \<Rightarrow> py_error + nat" where
  "suggest_optimal_clusters L embeddings =
     (if length embeddings < 3 then Inr 1
      else case np_array embeddings of
             Inl e \<Rightarrow> Inl e
           | Inr embeddings_array \<Rightarrow>
               (let max_clusters = min 10 (length embeddings - 1)
                in case fit_inertias L embeddings_array [1..<max_clusters + 1] of
                     Inl e \<Rightarrow> Inl e
                   | Inr inertias \<Rightarrow>
                       if length inertias < 3 then Inr 2
                       else case np_argmax (second_derivative inertias) of
                              Inl e \<Rightarrow> Inl e
                            | Inr elbow \<Rightarrow> Inr (elbow + 2)))"

subsection \<open>Connection graph builder\<close>

record connection =
  source :: nat
  target :: nat
  strength :: real

text \<open>The inner loop over \<open>j\<close> and the outer loop over \<open>i\<close>; \<open>connections\<close> is the list
  built so far.\<close>

fun connections_inner ::
  "ndarray \<Rightarrow> real \<Rightarrow> nat \<Rightarrow> nat list \<Rightarrow> connection list \<Rightarrow> py_error + connection list" where
  "connections_inner a threshold i [] connections = Inr connections"
| "connections_inner a threshold i (j # js) connections =
     (case cosine_similarity (a ! i) (a ! j) of
        Inl e \<Rightarrow> Inl e
      | Inr similarity \<Rightarrow>
          connections_inner a threshold i js
            (if similarity \<ge> threshold
             then connections @ [\<lparr>source = i, target = j, strength = similarity\<rparr>]
             else connections))"

fun connections_outer ::
  "ndarray \<Rightarrow> real \<Rightarrow> nat \<Rightarrow> nat list \<Rightarrow> connection list \<Rightarrow> py_error + connection list" where
  "connections_outer a threshold n_docs [] connections = Inr connections"
| "connections_outer a threshold n_docs (i # is) connections =
     (case connections_inner a threshold i [i + 1..<n_docs] connections of
        Inl e \<Rightarrow> Inl e
      | Inr connections' \<Rightarrow> connections_outer a threshold n_docs is connections')"

definition calculate_connections ::
  "real list list \<Rightarrow> real \<Rightarrow> py_error + connection list" where
  "calculate_connections embeddings threshold =
     (let n_docs = length embeddings
      in if n_docs < 2 then Inr []
         else case np_array embeddings of
                Inl e \<Rightarrow> Inl e
              | Inr embeddings_array \<Rightarrow>
                  connections_outer embeddings_array threshold n_docs [0..<n_docs] [])"

text \<open>
  Auxiliary functions for stating what the nested iteration computes: the value of the
  cosine similarity of two vectors of one dimension, the index pairs \<open>(i, j)\<close> in the order
  in which they are visited, the edge built for a pair, and the threshold test.
\<close>

definition cosine_value :: "vec \<Rightarrow> vec \<Rightarrow> real" where
  "cosine_value u v =
     (if linalg_norm u = 0 \<or> linalg_norm v = 0 then 0
      else np_clip (sum_list (map2 (*) u v) / (linalg_norm u * linalg_norm v)) (- 1) 1)"

definition index_pairs :: "nat \<Rightarrow> nat list \<Rightarrow> (nat \<times> nat) list" where
  "index_pairs n is = concat (map (\<lambda>i. map (Pair i) [i + 1..<n]) is)"

definition edge_of :: "ndarray \<Rightarrow> nat \<times> nat \<Rightarrow> connection" where
  "edge_of a p = \<lparr>source = fst p, target = snd p,
                   strength = cosine_value (a ! fst p) (a ! snd p)\<rparr>"

definition strong :: "ndarray \<Rightarrow> real \<Rightarrow> nat \<times> nat \<Rightarrow> bool" where
  "strong a threshold p \<longleftrightarrow> cosine_value (a ! fst p) (a ! snd p) \<ge> threshold"

subsection \<open>Layout aggregator\<close>

record cluster_summary =
  cluster_id :: int
  center :: position
  cluster_size :: nat
  document_indices :: "nat list"

text \<open>
  The dictionary \<^verbatim>\<open>clusters\<close> of \<open>calculate_cluster_info\<close> as an association list in
  insertion order (the order in which a Python \<^verbatim>\<open>dict\<close> is iterated): a label maps to its
  lists \<^verbatim>\<open>"documents"\<close> and \<^verbatim>\<open>"positions"\<close>. \<open>add_member\<close> is the body of the loop for a
  label other than -1: the entry is created when the label is new, and the index and
  the position are appended.
\<close>

type_synonym cluster_dict = "(int \<times> nat list \<times> vec list) list"

fun add_member :: "cluster_dict \<Rightarrow> int \<Rightarrow> nat \<Rightarrow> vec \<Rightarrow> cluster_dict" where
  "add_member [] label i p = [(label, [i], [p])]"
| "add_member ((l, docs, ps) # rest) label i p =
     (if l = label then (l, docs @ [i], ps @ [p]) # rest
      else (l, docs, ps) # add_member rest label i p)"

fun group_labels ::
  "ndarray \<Rightarrow> (nat \<times> int) list \<Rightarrow> cluster_dict \<Rightarrow> py_error + cluster_dict" where
  "group_labels positions_array [] clusters = Inr clusters"
| "group_labels positions_array ((i, label) # rest) clusters =
     (if label = - 1 then group_labels positions_array rest clusters
      else if i < length positions_array
      then group_labels positions_array rest
             (add_member clusters label i (positions_array ! i))
      else Inl IndexError)"

definition row_of_position :: "position \<Rightarrow> vec" where
  "row_of_position p = [pos_x p, pos_y p, pos_z p]"

definition summary_of :: "int \<times> nat list \<times> vec list \<Rightarrow> cluster_summary" where
  "summary_of entry =
     (case entry of (label, docs, ps) \<Rightarrow>
        (let c = mean_axis0 ps
         in \<lparr>cluster_id = label,
             center = \<lparr>pos_x = c ! 0, pos_y = c ! 1, pos_z = c ! 2\<rparr>,
             cluster_size = length docs,
             document_indices = docs\<rparr>))"

definition calculate_cluster_info ::
  "position list \<Rightarrow> int list \<Rightarrow> py_error + cluster_summary list" where
  "calculate_cluster_info positions labels =
     (if positions = [] \<or> labels = [] then Inr []
      else case group_labels (map row_of_position positions) (enumerate 0 labels) [] of
             Inl e \<Rightarrow> Inl e
           | Inr clusters \<Rightarrow> Inr (map summary_of clusters))"

record 'd layout =
  documents :: "('d \<times> position \<times> int) list"
  clusters :: "cluster_summary list"
  connections :: "connection list"

definition organize_spatial_layout ::
  "sklearn \<Rightarrow> 'd list \<Rightarrow> real list list \<Rightarrow> py_error + 'd layout" where
  "organize_spatial_layout L docs embeddings =
     (if docs = [] \<or> embeddings = []
      then Inr \<lparr>documents = [], clusters = [], connections = []\<rparr>
      else case calculate_3d_positions L embeddings ''pca'' of
             Inl e \<Rightarrow> Inl e
           | Inr positions \<Rightarrow>
       (case cluster_documents L embeddings ''hdbscan'' None of
             Inl e \<Rightarrow> Inl e
           | Inr cluster_labels \<Rightarrow>
       (case calculate_connections embeddings (8 / 10) of
             Inl e \<Rightarrow> Inl e
           | Inr conns \<Rightarrow>
       (let organized_docs =
              map (\<lambda>(i, doc).
                     (doc,
                      if i < length positions then positions ! i else origin,
                      if i < length cluster_labels then cluster_labels ! i else - 1))
                (enumerate 0 docs)
        in case calculate_cluster_info positions cluster_labels of
             Inl e \<Rightarrow> Inl e
           | Inr cluster_list \<Rightarrow>
               Inr \<lparr>documents = organized_docs, clusters = cluster_list,
                    connections = conns\<rparr>))))"

text \<open>The mean of the positions of the documents with the given indices.\<close>

definition mean_position :: "position list \<Rightarrow> nat list \<Rightarrow> position" where
  "mean_position positions idxs = centroid (map (\<lambda>i. positions ! i) idxs)"

subsection \<open>Two runtimes for evaluation\<close>

text \<open>
  Two concrete runtimes on which the functions are evaluated. In \<open>example_sklearn\<close> the
  imports of \<^verbatim>\<open>HDBSCAN\<close> and \<^verbatim>\<open>umap\<close> succeed and that of \<^verbatim>\<open>TSNE\<close> fails; UMAP rejects fewer
  than two neighbours and KMeans a cluster count outside 1 to the number of samples, as
  the libraries do. In \<open>example_sklearn_old\<close> neither \<^verbatim>\<open>HDBSCAN\<close> nor \<^verbatim>\<open>umap\<close> can be imported.
  The results of the fits are simple stand-ins of the documented shapes.
\<close>

definition example_inertia :: "nat \<Rightarrow> real" where
  "example_inertia k = (if k = 1 then 100 else if k = 2 then 90 else if k = 3 then 20 else 15)"

definition example_sklearn :: sklearn where
  "example_sklearn =
     \<lparr>scaler_fit_transform = Inr,
      pca_fit_transform = (\<lambda>k a. Inr (map (\<lambda>r. take k (r @ replicate k 0)) a)),
      tsne_importable = False,
      tsne_fit_transform = (\<lambda>perplexity a. Inl ValueError),
      umap_importable = True,
      umap_fit_transform =
        (\<lambda>n_neighbors a. if n_neighbors < 2 then Inl ValueError
                          else Inr (map (\<lambda>r. take 3 (r @ replicate 3 0)) a)),
      hdbscan_importable = True,
      kmeans_fit_predict =
        (\<lambda>k a. if 1 \<le> k \<and> k \<le> int (length a)
                then Inr (map (\<lambda>i. int i mod k) [0..<length a]) else Inl ValueError),
      hdbscan_fit_predict =
        (\<lambda>m a. Inr (map (\<lambda>r. if sum_list r < 0 then - 1 else if sum_list r < 5 then 0 else 1) a)),
      dbscan_fit_predict = (\<lambda>eps m a. Inr (replicate (length a) (- 1))),
      kmeans_inertia = (\<lambda>k a. Inr (example_inertia k))\<rparr>"

definition example_sklearn_old :: sklearn where
  "example_sklearn_old = example_sklearn\<lparr>umap_importable := False, hdbscan_importable := False\<rparr>"

text \<open>The discrete second derivative at \<open>k\<close> of a sequence indexed by the cluster count.\<close>

definition discrete_second_derivative :: "(nat \<Rightarrow> real) \<Rightarrow> nat \<Rightarrow> real" where
  "discrete_second_derivative f k = f (k + 1) - 2 * f k + f (k - 1)"

text \<open>The position that the final loop of \<open>calculate_3d_positions\<close> builds from a row of
  three columns.\<close>

definition position_of :: "vec \<Rightarrow> position" where
  "position_of r = \<lparr>pos_x = r ! 0, pos_y = r ! 1, pos_z = r ! 2\<rparr>"

text \<open>
  The invariant of the loop of \<open>calculate_cluster_info\<close> after the pairs \<open>seen\<close> of
  \<^verbatim>\<open>enumerate(labels)\<close>: the keys of the dictionary are distinct and are the labels seen other
  than -1, every index seen with such a label is within the positions, and each key maps
  to the indices seen with that label, in order, and to their rows.
\<close>

definition grouping_inv :: "ndarray \<Rightarrow> cluster_dict \<Rightarrow> (nat \<times> int) list \<Rightarrow> bool" where
  "grouping_inv pa cl seen \<longleftrightarrow>
     distinct (map fst cl)
   \<and> set (map fst cl) = snd ` set seen - {- 1}
   \<and> (\<forall>q\<in>set seen. snd q \<noteq> - 1 \<longrightarrow> fst q < length pa)
   \<and> (\<forall>l ds ps. map_of cl l = Some (ds, ps) \<longrightarrow>
         ds = map fst (filter (\<lambda>q. snd q = l) seen) \<and> ps = map (\<lambda>i. pa ! i) ds)"

section \<open>Properties\<close>

subsection \<open>Arithmetic of the primitives\<close>

lemma sum_squares_nonneg: "0 \<le> sum_list (map (\<lambda>t. t * t) (v :: real list))"
  by (induction v) auto

lemma sum_squares_zero_iff:
  "sum_list (map (\<lambda>t. t * t) (v :: real list)) = 0 \<longleftrightarrow> list_all (\<lambda>t. t = 0) v"
proof (induction v)
  case Nil
  show ?case by simp
next
  case (Cons a v)
  have "a * a + sum_list (map (\<lambda>t. t * t) v) = 0 \<longleftrightarrow>
        a * a = 0 \<and> sum_list (map (\<lambda>t. t * t) v) = 0"
    by (rule add_nonneg_eq_0_iff) (simp_all add: sum_squares_nonneg)
  with Cons show ?case by simp
qed

lemma linalg_norm_zero_iff: "linalg_norm v = 0 \<longleftrightarrow> list_all (\<lambda>t. t = 0) v"
  by (simp add: linalg_norm_def sum_squares_zero_iff)

lemma linalg_norm_nonneg: "0 \<le> linalg_norm v"
  by (simp add: linalg_norm_def sum_squares_nonneg)

lemma linalg_norm_square: "linalg_norm v * linalg_norm v = sum_list (map (\<lambda>t. t * t) v)"
  by (simp add: linalg_norm_def sum_squares_nonneg)

lemma map2_self_mult: "map2 (*) v v = map (\<lambda>t. t * t) (v :: real list)"
  by (induction v) auto

lemma np_clip_bounds: "- 1 \<le> np_clip v (- 1) 1 \<and> np_clip v (- 1) 1 \<le> 1"
  by (simp add: np_clip_def)

subsection \<open>Cosine similarity\<close>

text \<open>
  C2. For two vectors of one dimension, \<open>cosine_similarity\<close> raises nothing. It returns
  exactly 0 when either vector has zero norm (that is, when all its entries are 0), and
  otherwise the quotient of the dot product by the product of the norms, clamped to the
  closed interval from -1 to 1. The similarity of a vector with a nonzero entry to itself
  is 1.
\<close>

theorem cosine_similarity_contract:
  assumes "length a = length b"
  shows "(linalg_norm a = 0 \<or> linalg_norm b = 0 \<longrightarrow> cosine_similarity a b = Inr 0)
       \<and> (list_all (\<lambda>t. t = 0) a \<or> list_all (\<lambda>t. t = 0) b \<longrightarrow> cosine_similarity a b = Inr 0)
       \<and> (linalg_norm a \<noteq> 0 \<and> linalg_norm b \<noteq> 0 \<longrightarrow>
            cosine_similarity a b =
              Inr (np_clip (sum_list (map2 (*) a b) / (linalg_norm a * linalg_norm b)) (- 1) 1))
       \<and> (\<exists>s. cosine_similarity a b = Inr s \<and> - 1 \<le> s \<and> s \<le> 1)
       \<and> (\<not> list_all (\<lambda>t. t = 0) a \<longrightarrow> cosine_similarity a a = Inr 1)"
proof -
  have dot: "np_dot a b = Inr (sum_list (map2 (*) a b))"
    using assms by (simp add: np_dot_def)
  have zero: "linalg_norm a = 0 \<or> linalg_norm b = 0 \<longrightarrow> cosine_similarity a b = Inr 0"
    by (auto simp: cosine_similarity_def dot)
  have quot: "linalg_norm a \<noteq> 0 \<and> linalg_norm b \<noteq> 0 \<longrightarrow>
      cosine_similarity a b =
        Inr (np_clip (sum_list (map2 (*) a b) / (linalg_norm a * linalg_norm b)) (- 1) 1)"
    by (simp add: cosine_similarity_def dot)
  have range: "\<exists>s. cosine_similarity a b = Inr s \<and> - 1 \<le> s \<and> s \<le> 1"
  proof (cases "linalg_norm a = 0 \<or> linalg_norm b = 0")
    case True
    with zero show ?thesis by simp
  next
    case False
    with quot np_clip_bounds show ?thesis by simp
  qed
  have self: "\<not> list_all (\<lambda>t. t = 0) a \<longrightarrow> cosine_similarity a a = Inr 1"
  proof
    assume "\<not> list_all (\<lambda>t. t = 0) a"
    then have nz: "linalg_norm a \<noteq> 0" by (simp add: linalg_norm_zero_iff)
    let ?q = "sum_list (map (\<lambda>t. t * t) a) / (linalg_norm a * linalg_norm a)"
    from nz have "linalg_norm a * linalg_norm a \<noteq> 0" by simp
    then have q: "?q = 1"
      unfolding linalg_norm_square by simp
    have "np_clip ?q (- 1) 1 = np_clip 1 (- 1) 1"
      by (simp only: q)
    also have "\<dots> = 1"
      by (simp add: np_clip_def)
    finally have clip: "np_clip ?q (- 1) 1 = 1" .
    have "cosine_similarity a a = Inr (np_clip ?q (- 1) 1)"
      using nz unfolding cosine_similarity_def np_dot_def map2_self_mult Let_def by simp
    then show "cosine_similarity a a = Inr 1"
      by (simp only: clip)
  qed
  from zero quot range self show ?thesis
    by (simp add: linalg_norm_zero_iff)
qed

lemma sqrt_25: "sqrt 25 = 5"
  using real_sqrt_abs [of 5] by simp

lemma norm_3_4: "linalg_norm [3, 4] = 5"
  by (simp add: linalg_norm_def sqrt_25)

lemma norm_4_3: "linalg_norm [4, 3] = 5"
  by (simp add: linalg_norm_def sqrt_25)

theorem cosine_similarity_contract_witness:
  "cosine_similarity [3, 4] [4, 3] = Inr (24 / 25)
   \<and> cosine_similarity [0, 0] [1, 2] = Inr 0
   \<and> cosine_similarity [3, 4] [3, 4] = Inr 1"
proof -
  have len: "length [3, 4 :: real] = length [4, 3 :: real]" by simp
  have len0: "length [0, 0 :: real] = length [1, 2 :: real]" by simp
  have c: "np_clip (24 / 25) (- 1) 1 = 24 / 25" by (simp add: np_clip_def)
  show ?thesis
    using cosine_similarity_contract [OF len] cosine_similarity_contract [OF len0]
    by (simp add: norm_3_4 norm_4_3 c)
qed

text \<open>Vectors of different dimensions are rejected by \<^verbatim>\<open>np.dot\<close> before any norm is
  looked at.\<close>

lemma cosine_similarity_shape_mismatch:
  "length a \<noteq> length b \<Longrightarrow> cosine_similarity a b = Inl ValueError"
  by (simp add: cosine_similarity_def np_dot_def)

subsection \<open>Projection of the empty and the one-element collection\<close>

lemma pca_single: "pca_positions L [v] = Inr [[0, 0, 0]]"
  by (simp add: pca_positions_def np_zeros_def numeral_3_eq_3)

lemma projected_single: "projected_positions L [v] method = Inr [[0, 0, 0]]"
  by (simp add: projected_positions_def tsne_positions_def umap_positions_def pca_single
      np_zeros_def numeral_3_eq_3)

lemma normalize_zero_row: "normalize_positions [[0, 0, 0]] = Inr [[0, 0, 0]]"
  by (simp add: normalize_positions_def np_size_def shape1_def centred_def sub_rows_def
      mean_axis0_def max_dist_of_def linalg_norm_def upt_rec numeral_3_eq_3)

text \<open>
  C9. Whatever the libraries do and whatever method is named, \<open>calculate_3d_positions\<close>
  returns the empty list for no embedding, and the single position (0, 0, 0) for exactly
  one embedding \<open>v\<close>.
\<close>

theorem project_degenerate:
  "calculate_3d_positions L [] method = Inr []
   \<and> calculate_3d_positions L [v] method = Inr [origin]"
  by (simp add: calculate_3d_positions_def np_array_def projected_single normalize_zero_row
      origin_def)

subsection \<open>Connections\<close>

lemma cosine_similarity_value:
  "length u = length v \<Longrightarrow> cosine_similarity u v = Inr (cosine_value u v)"
  by (simp add: cosine_similarity_def np_dot_def cosine_value_def)

lemma cosine_similarity_Inr:
  "cosine_similarity u v = Inr s \<Longrightarrow> s = cosine_value u v \<and> length u = length v"
  by (auto simp: cosine_similarity_def np_dot_def cosine_value_def Let_def split: if_splits)

lemma connections_inner_eq:
  assumes "\<forall>j\<in>set js. length (a ! i) = length (a ! j)"
  shows "connections_inner a threshold i js acc =
         Inr (acc @ map (edge_of a) (filter (strong a threshold) (map (Pair i) js)))"
  using assms
proof (induction js arbitrary: acc)
  case Nil
  show ?case by simp
next
  case (Cons j js)
  then have "cosine_similarity (a ! i) (a ! j) = Inr (cosine_value (a ! i) (a ! j))"
    by (simp add: cosine_similarity_value)
  with Cons show ?case
    by (simp add: edge_of_def strong_def)
qed

lemma connections_outer_eq:
  assumes "\<forall>i\<in>set is. \<forall>j\<in>set [i + 1..<n]. length (a ! i) = length (a ! j)"
  shows "connections_outer a threshold n is acc =
         Inr (acc @ map (edge_of a) (filter (strong a threshold) (index_pairs n is)))"
  using assms
proof (induction "is" arbitrary: acc)
  case Nil
  show ?case by (simp add: index_pairs_def)
next
  case (Cons i "is")
  have inner: "connections_inner a threshold i [i + 1..<n] acc =
      Inr (acc @ map (edge_of a) (filter (strong a threshold) (map (Pair i) [i + 1..<n])))"
    by (rule connections_inner_eq) (use Cons.prems in simp)
  have rest: "\<forall>i\<in>set is. \<forall>j\<in>set [i + 1..<n]. length (a ! i) = length (a ! j)"
    using Cons.prems by simp
  show ?case
    using inner by (simp add: Cons.IH [OF rest] index_pairs_def)
qed

lemma index_pairs_Cons:
  "index_pairs n (i # is) = map (Pair i) [i + 1..<n] @ index_pairs n is"
  by (simp add: index_pairs_def)

lemma set_index_pairs_gen: "set (index_pairs n is) = {(i, j). i \<in> set is \<and> i < j \<and> j < n}"
  by (induction "is") (auto simp: index_pairs_Cons index_pairs_def)

lemma set_index_pairs: "set (index_pairs n [0..<n]) = {(i, j). i < j \<and> j < n}"
  by (auto simp: set_index_pairs_gen)

lemma distinct_index_pairs: "distinct is \<Longrightarrow> distinct (index_pairs n is)"
proof (induction "is")
  case Nil
  show ?case by (simp add: index_pairs_def)
next
  case (Cons i "is")
  have "distinct (map (Pair i) [i + 1..<n])"
    by (simp add: distinct_map inj_on_def)
  moreover have "set (map (Pair i) [i + 1..<n]) \<inter> set (index_pairs n is) = {}"
    using Cons.prems by (auto simp: set_index_pairs_gen)
  ultimately show ?case
    using Cons by (simp add: index_pairs_Cons)
qed

lemma np_array_rows:
  assumes "np_array rows = Inr a"
  shows "a = rows \<and> (\<forall>i<length rows. length (rows ! i) = shape1 rows)"
proof (cases rows)
  case Nil
  with assms show ?thesis by (simp add: np_array_def)
next
  case (Cons r rs)
  with assms have a: "a = rows" and all: "list_all (\<lambda>q. length q = length r) rs"
    by (auto simp: np_array_def split: if_splits)
  have "\<forall>q\<in>set rows. length q = length r"
    using all Cons by (auto simp: list_all_iff)
  then have "\<forall>i<length rows. length (rows ! i) = length r"
    by simp
  with a Cons show ?thesis by (simp add: shape1_def)
qed

lemma calculate_connections_eq:
  assumes "np_array embeddings = Inr a"
  shows "calculate_connections embeddings threshold =
         Inr (map (edge_of embeddings)
                (filter (strong embeddings threshold)
                   (index_pairs (length embeddings) [0..<length embeddings])))"
proof (cases "length embeddings < 2")
  case True
  then have "index_pairs (length embeddings) [0..<length embeddings] = []"
    by (cases embeddings) (auto simp: index_pairs_def)
  with True show ?thesis by (simp add: calculate_connections_def)
next
  case False
  from np_array_rows [OF assms]
  have a: "a = embeddings"
    and rows: "\<forall>i<length embeddings. length (embeddings ! i) = shape1 embeddings"
    by simp_all
  have "connections_outer embeddings threshold (length embeddings) [0..<length embeddings] [] =
        Inr ([] @ map (edge_of embeddings) (filter (strong embeddings threshold)
               (index_pairs (length embeddings) [0..<length embeddings])))"
    by (rule connections_outer_eq) (use rows in simp)
  with False assms a show ?thesis
    by (simp add: calculate_connections_def Let_def)
qed

text \<open>
  C3. For embeddings of one dimension, \<open>calculate_connections\<close> returns a list of edges
  such that: every edge joins indices \<open>i < j\<close> below the number of embeddings, carries the
  cosine similarity of the two embeddings, and that similarity is at least the threshold;
  every such pair has its edge in the list; no ordered pair and no unordered pair of
  indices occurs twice; and the list is empty for fewer than two embeddings.
\<close>

theorem calculate_connections_exact:
  assumes "np_array embeddings = Inr a"
  shows "\<exists>es. calculate_connections embeddings threshold = Inr es
     \<and> (\<forall>e\<in>set es. source e < target e \<and> target e < length embeddings
           \<and> cosine_similarity (embeddings ! source e) (embeddings ! target e) = Inr (strength e)
           \<and> strength e \<ge> threshold)
     \<and> (\<forall>i j s. i < j \<and> j < length embeddings
           \<and> cosine_similarity (embeddings ! i) (embeddings ! j) = Inr s \<and> s \<ge> threshold
           \<longrightarrow> \<lparr>source = i, target = j, strength = s\<rparr> \<in> set es)
     \<and> distinct (map (\<lambda>e. (source e, target e)) es)
     \<and> (\<forall>m k. m < length es \<and> k < length es \<and> m \<noteq> k \<longrightarrow>
           {source (es ! m), target (es ! m)} \<noteq> {source (es ! k), target (es ! k)})
     \<and> (length embeddings < 2 \<longrightarrow> es = [])"
proof -
  define n where "n = length embeddings"
  define ps where "ps = filter (strong embeddings threshold) (index_pairs n [0..<n])"
  define es where "es = map (edge_of embeddings) ps"
  from np_array_rows [OF assms]
  have rows: "\<forall>i<n. length (embeddings ! i) = shape1 embeddings"
    by (simp add: n_def)
  have res: "calculate_connections embeddings threshold = Inr es"
    unfolding es_def ps_def n_def by (rule calculate_connections_eq [OF assms])
  have set_ps: "set ps = {(i, j). i < j \<and> j < n \<and> strong embeddings threshold (i, j)}"
    by (auto simp: ps_def set_index_pairs)
  have pairs: "map (\<lambda>e. (source e, target e)) es = ps"
    by (simp add: es_def edge_of_def comp_def)
  have dist: "distinct (map (\<lambda>e. (source e, target e)) es)"
    unfolding pairs by (simp add: ps_def distinct_index_pairs)
  have sound: "source e < target e \<and> target e < n
           \<and> cosine_similarity (embeddings ! source e) (embeddings ! target e) = Inr (strength e)
           \<and> strength e \<ge> threshold" if "e \<in> set es" for e
  proof -
    from that obtain p where p: "p \<in> set ps" and e: "e = edge_of embeddings p"
      by (auto simp: es_def)
    obtain i j where pij: "p = (i, j)" by (cases p)
    with p set_ps have ij: "i < j" "j < n" "strong embeddings threshold (i, j)"
      by simp_all
    from ij rows have "length (embeddings ! i) = length (embeddings ! j)" by simp
    then have "cosine_similarity (embeddings ! i) (embeddings ! j) =
               Inr (cosine_value (embeddings ! i) (embeddings ! j))"
      by (rule cosine_similarity_value)
    with ij e pij show ?thesis
      by (simp add: edge_of_def strong_def)
  qed
  have complete: "\<lparr>source = i, target = j, strength = s\<rparr> \<in> set es"
    if h: "i < j \<and> j < n
           \<and> cosine_similarity (embeddings ! i) (embeddings ! j) = Inr s \<and> s \<ge> threshold"
    for i j s
  proof -
    from h have "cosine_similarity (embeddings ! i) (embeddings ! j) = Inr s" by simp
    then have s: "s = cosine_value (embeddings ! i) (embeddings ! j)"
      by (simp add: cosine_similarity_Inr)
    with h have "(i, j) \<in> set ps"
      by (simp add: set_ps strong_def)
    then have "edge_of embeddings (i, j) \<in> set es"
      by (simp add: es_def)
    with s show ?thesis
      by (simp add: edge_of_def)
  qed
  have unordered: "{source (es ! m), target (es ! m)} \<noteq> {source (es ! k), target (es ! k)}"
    if h: "m < length es \<and> k < length es \<and> m \<noteq> k" for m k
  proof -
    from h have "es ! m \<in> set es" "es ! k \<in> set es" by simp_all
    then have lt: "source (es ! m) < target (es ! m)" "source (es ! k) < target (es ! k)"
      using sound by simp_all
    from h have len: "m < length ps" "k < length ps" "m \<noteq> k"
      by (simp_all add: es_def)
    from dist have "distinct ps" by (simp only: pairs)
    with len have "ps ! m \<noteq> ps ! k"
      by (simp add: nth_eq_iff_index_eq)
    moreover have "ps ! m = (source (es ! m), target (es ! m))"
      using len by (simp add: es_def edge_of_def)
    moreover have "ps ! k = (source (es ! k), target (es ! k))"
      using len by (simp add: es_def edge_of_def)
    ultimately have "(source (es ! m), target (es ! m)) \<noteq> (source (es ! k), target (es ! k))"
      by simp
    with lt show ?thesis
      by (simp add: doubleton_eq_iff)
  qed
  have small: "es = []" if "n < 2"
  proof -
    from that have "index_pairs n [0..<n] = []"
      by (cases n) (simp_all add: index_pairs_def)
    then show ?thesis by (simp add: es_def ps_def)
  qed
  have 1: "\<forall>e\<in>set es. source e < target e \<and> target e < length embeddings
           \<and> cosine_similarity (embeddings ! source e) (embeddings ! target e) = Inr (strength e)
           \<and> strength e \<ge> threshold"
    using sound unfolding n_def by (intro ballI)
  have 2: "\<forall>i j s. i < j \<and> j < length embeddings
           \<and> cosine_similarity (embeddings ! i) (embeddings ! j) = Inr s \<and> s \<ge> threshold
           \<longrightarrow> \<lparr>source = i, target = j, strength = s\<rparr> \<in> set es"
    using complete unfolding n_def by (intro allI impI)
  have 3: "\<forall>m k. m < length es \<and> k < length es \<and> m \<noteq> k \<longrightarrow>
           {source (es ! m), target (es ! m)} \<noteq> {source (es ! k), target (es ! k)}"
    using unordered by (intro allI impI)
  have 4: "length embeddings < 2 \<longrightarrow> es = []"
    using small unfolding n_def by (intro impI)
  show ?thesis
    by (rule exI [of _ es]) (intro conjI res 1 2 dist 3 4)
qed


lemma cosine_value_bounds: "- 1 \<le> cosine_value u v \<and> cosine_value u v \<le> 1"
  by (simp add: cosine_value_def np_clip_def)

lemma connections_sound:
  assumes "np_array embeddings = Inr a"
    and "calculate_connections embeddings threshold = Inr es"
    and "e \<in> set es"
  shows "source e < target e \<and> target e < length embeddings
       \<and> cosine_similarity (embeddings ! source e) (embeddings ! target e) = Inr (strength e)
       \<and> strength e = cosine_value (embeddings ! source e) (embeddings ! target e)
       \<and> strength e \<ge> threshold"
proof -
  define n where "n = length embeddings"
  from np_array_rows [OF assms(1)]
  have rows: "\<forall>i<n. length (embeddings ! i) = shape1 embeddings"
    by (simp add: n_def)
  from assms(2) have "es = map (edge_of embeddings)
      (filter (strong embeddings threshold) (index_pairs n [0..<n]))"
    by (simp add: calculate_connections_eq [OF assms(1)] n_def)
  with assms(3) obtain p where p: "p \<in> set (index_pairs n [0..<n])"
    and st: "strong embeddings threshold p" and e: "e = edge_of embeddings p"
    by auto
  obtain i j where pij: "p = (i, j)" by (cases p)
  with p have ij: "i < j" "j < n" by (simp_all add: set_index_pairs)
  with rows have "length (embeddings ! i) = length (embeddings ! j)" by simp
  then have "cosine_similarity (embeddings ! i) (embeddings ! j) =
             Inr (cosine_value (embeddings ! i) (embeddings ! j))"
    by (rule cosine_similarity_value)
  with ij e pij st show ?thesis
    by (simp add: edge_of_def strong_def n_def)
qed

text \<open>
  C6, amended. For embeddings of one dimension and any threshold, the strength of every
  edge that \<open>calculate_connections\<close> returns is the cosine similarity of its two embeddings
  as \<open>cosine_similarity\<close> returns it, clamped into the interval from -1 to 1 and not further;
  it is at least the threshold. When the threshold is not negative, as every threshold
  of the configured range from 0 to 1 is, the strength equals its clamp into the interval
  from 0 to 1 and lies in that interval.
\<close>

theorem connection_strength_signed:
  assumes "np_array embeddings = Inr a"
  shows "\<exists>es. calculate_connections embeddings threshold = Inr es
     \<and> (\<forall>e\<in>set es.
           cosine_similarity (embeddings ! source e) (embeddings ! target e) = Inr (strength e)
         \<and> threshold \<le> strength e
         \<and> strength e = np_clip (strength e) (- 1) 1
         \<and> - 1 \<le> strength e \<and> strength e \<le> 1
         \<and> (0 \<le> threshold \<longrightarrow> strength e = np_clip (strength e) 0 1 \<and> 0 \<le> strength e))"
proof -
  obtain es where res: "calculate_connections embeddings threshold = Inr es"
    by (simp add: calculate_connections_eq [OF assms(1)])
  have "cosine_similarity (embeddings ! source e) (embeddings ! target e) = Inr (strength e)
         \<and> threshold \<le> strength e
         \<and> strength e = np_clip (strength e) (- 1) 1
         \<and> - 1 \<le> strength e \<and> strength e \<le> 1
         \<and> (0 \<le> threshold \<longrightarrow> strength e = np_clip (strength e) 0 1 \<and> 0 \<le> strength e)"
    if "e \<in> set es" for e
  proof -
    from connections_sound [OF assms(1) res that]
    have c: "cosine_similarity (embeddings ! source e) (embeddings ! target e) = Inr (strength e)"
      and v: "strength e = cosine_value (embeddings ! source e) (embeddings ! target e)"
      and t: "strength e \<ge> threshold"
      by simp_all
    from v cosine_value_bounds [of "embeddings ! source e" "embeddings ! target e"]
    have lo: "- 1 \<le> strength e" and hi: "strength e \<le> 1" by simp_all
    from lo hi have signed: "strength e = np_clip (strength e) (- 1) 1"
      by (simp add: np_clip_def)
    have unit: "strength e = np_clip (strength e) 0 1 \<and> 0 \<le> strength e" if "0 \<le> threshold"
    proof -
      from t that have "0 \<le> strength e" by simp
      with hi show ?thesis by (simp add: np_clip_def)
    qed
    from c t signed lo hi unit show ?thesis by blast
  qed
  with res show ?thesis by blast
qed

lemma norm_1_0: "linalg_norm [1, 0] = 1" by (simp add: linalg_norm_def)
lemma norm_0_1: "linalg_norm [0, 1] = 1" by (simp add: linalg_norm_def)
lemma norm_2_0: "linalg_norm [2, 0] = 2" by (simp add: linalg_norm_def)
lemma norm_m1_0: "linalg_norm [- 1, 0] = 1" by (simp add: linalg_norm_def)

lemma three_docs_array: "np_array [[1, 0], [0, 1], [2, 0]] = Inr [[1, 0], [0, 1], [2, 0]]"
  by (simp add: np_array_def)

lemma three_docs_connections:
  "calculate_connections [[1, 0], [0, 1], [2, 0]] (9 / 10) =
     Inr [\<lparr>source = 0, target = 2, strength = 1\<rparr>]"
  by (simp add: calculate_connections_def three_docs_array upt_rec cosine_similarity_def
      np_dot_def norm_1_0 norm_0_1 norm_2_0 np_clip_def)

theorem calculate_connections_exact_witness:
  "np_array [[1, 0], [0, 1], [2, 0]] = Inr [[1, 0], [0, 1], [2, 0]]
   \<and> (\<exists>es. calculate_connections [[1, 0], [0, 1], [2, 0]] (9 / 10) = Inr es
        \<and> es = [\<lparr>source = 0, target = 2, strength = 1\<rparr>]
        \<and> distinct (map (\<lambda>e. (source e, target e)) es))"
  using calculate_connections_exact [OF three_docs_array, of "9 / 10"]
  by (simp add: three_docs_connections three_docs_array)

lemma opposed_docs_array: "np_array [[1, 0], [- 1, 0]] = Inr [[1, 0], [- 1, 0]]"
  by (simp add: np_array_def)

lemma opposed_docs_similarity: "cosine_similarity [1, 0] [- 1, 0] = Inr (- 1)"
  by (simp add: cosine_similarity_def np_dot_def norm_1_0 norm_m1_0 np_clip_def)

lemma opposed_docs_connections:
  "calculate_connections [[1, 0], [- 1, 0]] (- 1) =
     Inr [\<lparr>source = 0, target = 1, strength = - 1\<rparr>]"
  by (simp add: calculate_connections_def np_array_def upt_rec cosine_similarity_def
      np_dot_def norm_1_0 norm_m1_0 np_clip_def)

theorem connection_strength_signed_witness:
  "np_array [[1, 0], [0, 1], [2, 0]] = Inr [[1, 0], [0, 1], [2, 0]]
   \<and> (0 :: real) \<le> 9 / 10
   \<and> (\<exists>es. calculate_connections [[1, 0], [0, 1], [2, 0]] (9 / 10) = Inr es
        \<and> map strength es = [1])
   \<and> np_clip 1 0 1 = 1
   \<and> np_array [[1, 0], [- 1, 0]] = Inr [[1, 0], [- 1, 0]]
   \<and> (\<exists>es. calculate_connections [[1, 0], [- 1, 0]] (- 1) = Inr es
        \<and> map strength es = [- 1])
   \<and> np_clip (- 1) (- 1) 1 = - 1"
  using connection_strength_signed [OF three_docs_array, of "9 / 10"]
    connection_strength_signed [OF opposed_docs_array, of "- 1"]
  by (simp add: three_docs_connections three_docs_array opposed_docs_connections
      opposed_docs_array np_clip_def)

text \<open>
  C6, as stated, fails: the module clamps the similarity into the interval from -1 to 1
  only. With the threshold -1, the edge between two opposed vectors is returned with the
  strength -1, their cosine similarity, whose clamp into the interval from 0 to 1 is 0.
\<close>

theorem connection_strength_negative:
  "calculate_connections [[1, 0], [- 1, 0]] (- 1) =
     Inr [\<lparr>source = 0, target = 1, strength = - 1\<rparr>]
   \<and> cosine_similarity [1, 0] [- 1, 0] = Inr (- 1)
   \<and> np_clip (- 1) 0 1 = 0
   \<and> strength \<lparr>source = 0, target = 1, strength = - 1\<rparr> < 0"
  by (simp add: opposed_docs_connections opposed_docs_similarity np_clip_def)

subsection \<open>Cluster assignment\<close>

lemma example_sklearn_labels: "sklearn_labels example_sklearn"
  by (auto simp: sklearn_labels_def example_sklearn_def split: if_splits)

lemma example_sklearn_shapes: "sklearn_shapes example_sklearn"
  by (auto simp: sklearn_shapes_def example_sklearn_def list_all_iff split: if_splits)

lemma np_array_length: "np_array rows = Inr a \<Longrightarrow> a = rows"
  by (auto simp: np_array_def split: list.splits if_splits)

lemma np_array_short: "length rows < 2 \<Longrightarrow> np_array rows = Inr rows"
  by (cases rows) (auto simp: np_array_def)

text \<open>
  What \<open>cluster_documents\<close> does when it raises nothing. It returns the label 0 for every
  document when there are fewer than two; whenever it returns labels (and the library
  returns one label per row), they are as many as the embeddings; under \<^verbatim>\<open>kmeans\<close> with a count
  above the number of embeddings, KMeans is run with the number of embeddings instead; and
  under \<^verbatim>\<open>kmeans\<close> with a count, or under \<^verbatim>\<open>hdbscan\<close>, it returns the labels of the fit whenever
  the fit returns some.
\<close>

lemma cluster_documents_labels:
  "(length embeddings < 2 \<longrightarrow>
      cluster_documents L embeddings method n_clusters = Inr (replicate (length embeddings) 0))
   \<and> (sklearn_labels L \<and> cluster_documents L embeddings method n_clusters = Inr labels \<longrightarrow>
        length labels = length embeddings)
   \<and> (2 \<le> length embeddings \<and> np_array embeddings = Inr a \<and> method = ''kmeans''
        \<and> n_clusters = Some k \<and> int (length embeddings) < k \<longrightarrow>
        cluster_documents L embeddings method n_clusters =
          kmeans_fit_predict L (int (length embeddings)) a)
   \<and> (2 \<le> length embeddings \<and> np_array embeddings = Inr a \<and> method = ''kmeans''
        \<and> n_clusters = Some k \<and> k \<noteq> 0
        \<and> kmeans_fit_predict L (min k (int (length embeddings))) a = Inr labels \<longrightarrow>
        cluster_documents L embeddings method n_clusters = Inr labels)
   \<and> (2 \<le> length embeddings \<and> np_array embeddings = Inr a \<and> method = ''hdbscan''
        \<and> hdbscan_importable L
        \<and> hdbscan_fit_predict L (max 2 (length embeddings div 10)) a = Inr labels \<longrightarrow>
        cluster_documents L embeddings method n_clusters = Inr labels)
   \<and> (2 \<le> length embeddings \<and> np_array embeddings = Inr a \<and> method = ''hdbscan''
        \<and> \<not> hdbscan_importable L
        \<and> dbscan_fit_predict L (1 / 2) 2 a = Inr labels \<longrightarrow>
        cluster_documents L embeddings method n_clusters = Inr labels)"
proof -
  have small: "length embeddings < 2 \<longrightarrow>
      cluster_documents L embeddings method n_clusters = Inr (replicate (length embeddings) 0)"
    by (auto simp: cluster_documents_def np_array_short)
  have len: "sklearn_labels L \<and> cluster_documents L embeddings method n_clusters = Inr labels \<longrightarrow>
        length labels = length embeddings"
  proof
    assume h: "sklearn_labels L \<and> cluster_documents L embeddings method n_clusters = Inr labels"
    show "length labels = length embeddings"
    proof (cases "embeddings = []")
      case True
      with h show ?thesis by (simp add: cluster_documents_def)
    next
      case False
      with h obtain b where b: "np_array embeddings = Inr b"
        by (auto simp: cluster_documents_def split: sum.splits)
      then have eq: "b = embeddings" by (rule np_array_length)
      from h have lab: "\<And>k ls. kmeans_fit_predict L k embeddings = Inr ls \<Longrightarrow> length ls = length embeddings"
        "\<And>m ls. hdbscan_fit_predict L m embeddings = Inr ls \<Longrightarrow> length ls = length embeddings"
        "\<And>e m ls. dbscan_fit_predict L e m embeddings = Inr ls \<Longrightarrow> length ls = length embeddings"
        unfolding sklearn_labels_def by blast+
      from h False b eq show ?thesis
        by (auto simp: cluster_documents_def Let_def lab split: option.splits if_splits)
    qed
  qed
  have clamp: "2 \<le> length embeddings \<and> np_array embeddings = Inr a \<and> method = ''kmeans''
        \<and> n_clusters = Some k \<and> int (length embeddings) < k \<longrightarrow>
        cluster_documents L embeddings method n_clusters =
          kmeans_fit_predict L (int (length embeddings)) a"
    by (auto simp: cluster_documents_def kmeans_requested_def Let_def min_def
        dest: np_array_length)
  have km: "2 \<le> length embeddings \<and> np_array embeddings = Inr a \<and> method = ''kmeans''
        \<and> n_clusters = Some k \<and> k \<noteq> 0
        \<and> kmeans_fit_predict L (min k (int (length embeddings))) a = Inr labels \<longrightarrow>
        cluster_documents L embeddings method n_clusters = Inr labels"
    by (auto simp: cluster_documents_def kmeans_requested_def Let_def
        dest: np_array_length)
  have hd: "2 \<le> length embeddings \<and> np_array embeddings = Inr a \<and> method = ''hdbscan''
        \<and> hdbscan_importable L
        \<and> hdbscan_fit_predict L (max 2 (length embeddings div 10)) a = Inr labels \<longrightarrow>
        cluster_documents L embeddings method n_clusters = Inr labels"
    by (auto simp: cluster_documents_def kmeans_requested_def Let_def HAS_HDBSCAN_def
        dest: np_array_length split: option.splits)
  have db: "2 \<le> length embeddings \<and> np_array embeddings = Inr a \<and> method = ''hdbscan''
        \<and> \<not> hdbscan_importable L
        \<and> dbscan_fit_predict L (1 / 2) 2 a = Inr labels \<longrightarrow>
        cluster_documents L embeddings method n_clusters = Inr labels"
    by (auto simp: cluster_documents_def kmeans_requested_def Let_def HAS_HDBSCAN_def
        DBSCAN_bound_def dest: np_array_length split: option.splits)
  from small len clamp km hd db show ?thesis by (intro conjI)
qed


lemma example_kmeans:
  "cluster_documents example_sklearn [[0], [1], [2]] ''kmeans'' (Some 2) = Inr [0, 1, 0]"
  by (simp add: cluster_documents_def np_array_def kmeans_requested_def example_sklearn_def
      upt_rec)

lemma example_kmeans_clamped:
  "cluster_documents example_sklearn [[0], [1]] ''kmeans'' (Some 5) = Inr [0, 1]"
  by (simp add: cluster_documents_def np_array_def kmeans_requested_def example_sklearn_def
      upt_rec)

lemma example_hdbscan:
  "cluster_documents example_sklearn [[0], [7]] ''hdbscan'' None = Inr [0, 1]"
  by (simp add: cluster_documents_def np_array_def kmeans_requested_def example_sklearn_def
      HAS_HDBSCAN_def)

lemma example_dbscan:
  "cluster_documents example_sklearn_old [[0], [7]] ''hdbscan'' None = Inr [- 1, - 1]"
  by (simp add: cluster_documents_def np_array_def kmeans_requested_def example_sklearn_def
      example_sklearn_old_def HAS_HDBSCAN_def DBSCAN_bound_def numeral_2_eq_2)

lemma cluster_documents_labels_examples:
  "cluster_documents example_sklearn [[1]] ''kmeans'' (Some 3) = Inr [0]
   \<and> sklearn_labels example_sklearn
   \<and> cluster_documents example_sklearn [[0], [1], [2]] ''kmeans'' (Some 2) = Inr [0, 1, 0]
   \<and> length [0, 1, 0 :: int] = length [[0], [1], [2 :: real]]
   \<and> cluster_documents example_sklearn [[0], [1]] ''kmeans'' (Some 5) =
       kmeans_fit_predict example_sklearn 2 [[0], [1]]
   \<and> cluster_documents example_sklearn [[0], [7]] ''hdbscan'' None = Inr [0, 1]
   \<and> cluster_documents example_sklearn_old [[0], [7]] ''hdbscan'' None = Inr [- 1, - 1]"
  using
    cluster_documents_labels [of "[[1]]" example_sklearn "''kmeans''" "Some 3"]
    cluster_documents_labels [of "[[0], [1], [2]]" example_sklearn "''kmeans''" "Some 2"
      "[0, 1, 0]"]
    cluster_documents_labels [of "[[0], [1]]" example_sklearn "''kmeans''" "Some 5" _
      "[[0], [1]]" 5]
  by (simp add: example_sklearn_labels example_kmeans example_hdbscan example_dbscan
      np_array_def)

text \<open>
  The final \<^verbatim>\<open>else\<close> branch calls \<^verbatim>\<open>DBSCAN(eps=0.5, min_samples=2)\<close>, but the name \<^verbatim>\<open>DBSCAN\<close> is
  bound only when \<^verbatim>\<open>HDBSCAN\<close> could not be imported. Where \<^verbatim>\<open>HDBSCAN\<close> can be imported, at
  least two embeddings of one dimension therefore raise \<^verbatim>\<open>NameError\<close> for every method other
  than \<^verbatim>\<open>hdbscan\<close>, unless the method is \<^verbatim>\<open>kmeans\<close> with a count other than 0.
\<close>

lemma cluster_documents_name_error:
  assumes "hdbscan_importable L" and "2 \<le> length embeddings"
    and "np_array embeddings = Inr a"
    and "method \<noteq> ''hdbscan''" and "kmeans_requested method n_clusters = None"
  shows "cluster_documents L embeddings method n_clusters = Inl NameError"
  using assms
  by (auto simp: cluster_documents_def Let_def HAS_HDBSCAN_def DBSCAN_bound_def
      dest: np_array_length)

text \<open>
  C7. In a runtime where \<^verbatim>\<open>HDBSCAN\<close> can be imported, \<open>cluster_documents\<close> returns no labels
  for two embeddings under the method \<^verbatim>\<open>kmeans\<close> without a count, nor under a method string
  other than \<^verbatim>\<open>kmeans\<close> and \<^verbatim>\<open>hdbscan\<close>, with or without a count: it raises \<^verbatim>\<open>NameError\<close>.
\<close>

theorem cluster_documents_raises_name_error:
  "hdbscan_importable example_sklearn
   \<and> np_array [[0], [1]] = Inr [[0], [1]]
   \<and> cluster_documents example_sklearn [[0], [1]] ''kmeans'' None = Inl NameError
   \<and> cluster_documents example_sklearn [[0], [1]] ''dbscan'' None = Inl NameError
   \<and> cluster_documents example_sklearn [[0], [1]] ''dbscan'' (Some 2) = Inl NameError"
  by (simp add: cluster_documents_def np_array_def kmeans_requested_def example_sklearn_def
      HAS_HDBSCAN_def DBSCAN_bound_def)

text \<open>
  With the method \<^verbatim>\<open>kmeans\<close> and no count (\<^verbatim>\<open>None\<close> or 0), at least two embeddings reach the
  final \<^verbatim>\<open>else\<close> branch. It calls \<^verbatim>\<open>DBSCAN(eps=0.5, min_samples=2)\<close>, but the name \<^verbatim>\<open>DBSCAN\<close> is
  bound only when \<^verbatim>\<open>HDBSCAN\<close> could not be imported: otherwise the call raises \<^verbatim>\<open>NameError\<close>.
\<close>

lemma kmeans_without_count:
  assumes "2 \<le> length embeddings" and "np_array embeddings = Inr a"
    and "n_clusters = None \<or> n_clusters = Some 0"
  shows "cluster_documents L embeddings ''kmeans'' n_clusters =
         (if hdbscan_importable L then Inl NameError else dbscan_fit_predict L (1 / 2) 2 a)"
  using assms
  by (auto simp: cluster_documents_def kmeans_requested_def Let_def HAS_HDBSCAN_def
      DBSCAN_bound_def dest: np_array_length)

text \<open>
  C10. In a runtime where \<^verbatim>\<open>HDBSCAN\<close> can be imported, \<open>cluster_documents\<close> with the
  method \<^verbatim>\<open>kmeans\<close> and no count raises \<^verbatim>\<open>NameError\<close> on two embeddings; where it cannot be
  imported, the same call returns the labels of DBSCAN, here the noise label -1.
\<close>

theorem kmeans_without_count_name_error:
  "hdbscan_importable example_sklearn
   \<and> cluster_documents example_sklearn [[0], [1]] ''kmeans'' None = Inl NameError
   \<and> cluster_documents example_sklearn [[0], [1]] ''kmeans'' (Some 0) = Inl NameError
   \<and> cluster_documents example_sklearn_old [[0], [1]] ''kmeans'' None = Inr [- 1, - 1]"
  by (simp add: cluster_documents_def np_array_def kmeans_requested_def example_sklearn_def
      example_sklearn_old_def HAS_HDBSCAN_def DBSCAN_bound_def numeral_2_eq_2)

subsection \<open>Projection: fallback to PCA\<close>

lemma sqrt_25_4: "sqrt (25 / 4) = 5 / 2"
  using real_sqrt_abs [of "5 / 2"] by (simp add: power2_eq_square)

lemma norm_centred_a: "linalg_norm [- (3 / 2), - 2, 0] = 5 / 2"
proof -
  have "(3 / 2) * (3 / 2) + (2 * 2 :: real) = 25 / 4" by simp
  then show ?thesis by (simp add: linalg_norm_def sqrt_25_4)
qed

lemma norm_centred_b: "linalg_norm [3 / 2, 2, 0] = 5 / 2"
proof -
  have "(3 / 2) * (3 / 2) + (2 * 2 :: real) = 25 / 4" by simp
  then show ?thesis by (simp add: linalg_norm_def sqrt_25_4)
qed

lemma two_docs_array: "np_array [[0, 0], [3, 4]] = Inr [[0, 0], [3, 4]]"
  by (simp add: np_array_def)

lemma two_docs_pca:
  "pca_positions example_sklearn [[0, 0], [3, 4]] = Inr [[0, 0, 0], [3, 4, 0]]"
  by (simp add: pca_positions_def example_sklearn_def shape1_def np_hstack_def np_zeros_def
      numeral_2_eq_2)

lemma two_docs_centred: "centred [[0, 0, 0], [3, 4, 0]] = [[- (3 / 2), - 2, 0], [3 / 2, 2, 0]]"
  by (simp add: centred_def sub_rows_def mean_axis0_def shape1_def upt_rec numeral_3_eq_3)

lemma two_docs_normalized:
  "normalize_positions [[0, 0, 0], [3, 4, 0]] = Inr [[- 6, - 8, 0], [6, 8, 0]]"
  by (simp add: normalize_positions_def np_size_def shape1_def two_docs_centred max_dist_of_def
      norm_centred_a norm_centred_b scale_rows_def)

lemma two_docs_positions_pca:
  "calculate_3d_positions example_sklearn [[0, 0], [3, 4]] ''pca'' =
     Inr [\<lparr>pos_x = - 6, pos_y = - 8, pos_z = 0\<rparr>, \<lparr>pos_x = 6, pos_y = 8, pos_z = 0\<rparr>]"
  by (simp add: calculate_3d_positions_def two_docs_array projected_positions_def two_docs_pca
      two_docs_normalized)

lemma two_docs_umap: "umap_positions example_sklearn [[0, 0], [3, 4]] = Inl ValueError"
  by (simp add: umap_positions_def example_sklearn_def)

text \<open>
  C5, as stated, fails: in a runtime where \<^verbatim>\<open>umap\<close> can be imported, two embeddings give
  \<^verbatim>\<open>n_neighbors = 1\<close>, which UMAP rejects with \<^verbatim>\<open>ValueError\<close>. The exception is not an
  \<^verbatim>\<open>ImportError\<close>, so it leaves \<open>calculate_3d_positions\<close>, although the PCA path returns
  positions for the same embeddings.
\<close>

theorem umap_failure_surfaces:
  "umap_importable example_sklearn
   \<and> umap_fit_transform example_sklearn (min 15 (length [[0, 0], [3, 4 :: real]] - 1))
        [[0, 0], [3, 4]] = Inl ValueError
   \<and> calculate_3d_positions example_sklearn [[0, 0], [3, 4]] ''umap'' = Inl ValueError
   \<and> calculate_3d_positions example_sklearn [[0, 0], [3, 4]] ''pca'' =
       Inr [\<lparr>pos_x = - 6, pos_y = - 8, pos_z = 0\<rparr>, \<lparr>pos_x = 6, pos_y = 8, pos_z = 0\<rparr>]"
proof -
  have "umap_importable example_sklearn"
    by (simp add: example_sklearn_def)
  moreover have "umap_fit_transform example_sklearn (min 15 (length [[0, 0], [3, 4 :: real]] - 1))
        [[0, 0], [3, 4]] = Inl ValueError"
    by (simp add: example_sklearn_def)
  moreover have "calculate_3d_positions example_sklearn [[0, 0], [3, 4]] ''umap'' = Inl ValueError"
    by (simp add: calculate_3d_positions_def two_docs_array projected_positions_def two_docs_umap)
  ultimately show ?thesis
    by (simp only: two_docs_positions_pca simp_thms)
qed

text \<open>
  C5, amended. When the import of the requested algorithm (\<^verbatim>\<open>TSNE\<close> or \<^verbatim>\<open>umap\<close>) fails, the
  projection is that of the PCA path and \<open>calculate_3d_positions\<close> returns exactly what it
  returns for the method \<^verbatim>\<open>pca\<close>. When the import succeeds and the fit raises another
  exception, that exception is the result.
\<close>

theorem projection_fallback_on_import_error:
  "(\<not> tsne_importable L \<longrightarrow>
      tsne_positions L a = pca_positions L a
      \<and> calculate_3d_positions L embeddings ''tsne'' = calculate_3d_positions L embeddings ''pca'')
   \<and> (\<not> umap_importable L \<longrightarrow>
      umap_positions L a = pca_positions L a
      \<and> calculate_3d_positions L embeddings ''umap'' = calculate_3d_positions L embeddings ''pca'')
   \<and> (tsne_importable L \<and> length a \<noteq> 1
        \<and> tsne_fit_transform L (min 30 (length a - 1)) a = Inl e \<and> e \<noteq> ImportError \<longrightarrow>
      tsne_positions L a = Inl e)
   \<and> (umap_importable L \<and> length a \<noteq> 1
        \<and> umap_fit_transform L (min 15 (length a - 1)) a = Inl e \<and> e \<noteq> ImportError \<longrightarrow>
      umap_positions L a = Inl e)"
proof -
  have t: "\<not> tsne_importable L \<Longrightarrow> tsne_positions L b = pca_positions L b" for b
    by (simp add: tsne_positions_def)
  have u: "\<not> umap_importable L \<Longrightarrow> umap_positions L b = pca_positions L b" for b
    by (simp add: umap_positions_def)
  have 1: "\<not> tsne_importable L \<longrightarrow>
      tsne_positions L a = pca_positions L a
      \<and> calculate_3d_positions L embeddings ''tsne'' = calculate_3d_positions L embeddings ''pca''"
    by (simp add: t calculate_3d_positions_def projected_positions_def split: sum.splits)
  have 2: "\<not> umap_importable L \<longrightarrow>
      umap_positions L a = pca_positions L a
      \<and> calculate_3d_positions L embeddings ''umap'' = calculate_3d_positions L embeddings ''pca''"
    by (simp add: u calculate_3d_positions_def projected_positions_def split: sum.splits)
  have 3: "tsne_importable L \<and> length a \<noteq> 1
        \<and> tsne_fit_transform L (min 30 (length a - 1)) a = Inl e \<and> e \<noteq> ImportError \<longrightarrow>
      tsne_positions L a = Inl e"
    by (cases e) (simp_all add: tsne_positions_def)
  have 4: "umap_importable L \<and> length a \<noteq> 1
        \<and> umap_fit_transform L (min 15 (length a - 1)) a = Inl e \<and> e \<noteq> ImportError \<longrightarrow>
      umap_positions L a = Inl e"
    by (cases e) (simp_all add: umap_positions_def)
  from 1 2 3 4 show ?thesis by (intro conjI)
qed

theorem projection_fallback_on_import_error_witness:
  "\<not> tsne_importable example_sklearn
   \<and> calculate_3d_positions example_sklearn [[0, 0], [3, 4]] ''tsne'' =
       Inr [\<lparr>pos_x = - 6, pos_y = - 8, pos_z = 0\<rparr>, \<lparr>pos_x = 6, pos_y = 8, pos_z = 0\<rparr>]
   \<and> \<not> umap_importable example_sklearn_old
   \<and> calculate_3d_positions example_sklearn_old [[0, 0], [3, 4]] ''umap'' =
       calculate_3d_positions example_sklearn_old [[0, 0], [3, 4]] ''pca''
   \<and> umap_importable example_sklearn
   \<and> umap_positions example_sklearn [[0, 0], [3, 4]] = Inl ValueError
   \<and> tsne_positions (example_sklearn\<lparr>tsne_importable := True\<rparr>) [[0, 0], [3, 4]] = Inl ValueError"
  using
    projection_fallback_on_import_error [of example_sklearn "[[0, 0], [3, 4]]"
      "[[0, 0], [3, 4]]" ValueError]
    projection_fallback_on_import_error [of example_sklearn_old "[[0, 0], [3, 4]]"
      "[[0, 0], [3, 4]]" ValueError]
    projection_fallback_on_import_error [of "example_sklearn\<lparr>tsne_importable := True\<rparr>"
      "[[0, 0], [3, 4]]" "[[0, 0], [3, 4]]" ValueError]
  by (simp add: two_docs_positions_pca two_docs_umap)
    (simp add: example_sklearn_def example_sklearn_old_def tsne_positions_def)

subsection \<open>The elbow heuristic\<close>

lemma argmax_from_spec:
  assumes "bi < length pre" and "bv = pre ! bi" and "i = length pre"
    and "\<forall>j<length pre. pre ! j \<le> bv" and "\<forall>j<bi. pre ! j < bv"
  shows "argmax_from vs i bi bv < length (pre @ vs)
       \<and> (\<forall>j<length (pre @ vs). (pre @ vs) ! j \<le> (pre @ vs) ! argmax_from vs i bi bv)
       \<and> (\<forall>j<argmax_from vs i bi bv. (pre @ vs) ! j < (pre @ vs) ! argmax_from vs i bi bv)"
  using assms
proof (induction vs arbitrary: pre bi bv i)
  case Nil
  then show ?case by simp
next
  case (Cons v vs)
  show ?case
  proof (cases "v > bv")
    case True
    have "argmax_from vs (Suc i) i v < length ((pre @ [v]) @ vs)
       \<and> (\<forall>j<length ((pre @ [v]) @ vs). ((pre @ [v]) @ vs) ! j \<le> ((pre @ [v]) @ vs) ! argmax_from vs (Suc i) i v)
       \<and> (\<forall>j<argmax_from vs (Suc i) i v. ((pre @ [v]) @ vs) ! j < ((pre @ [v]) @ vs) ! argmax_from vs (Suc i) i v)"
    proof (rule Cons.IH)
      show "i < length (pre @ [v])" using Cons.prems by simp
      show "v = (pre @ [v]) ! i" using Cons.prems by simp
      show "Suc i = length (pre @ [v])" using Cons.prems by simp
      show "\<forall>j<length (pre @ [v]). (pre @ [v]) ! j \<le> v"
      proof (intro allI impI)
        fix j assume "j < length (pre @ [v])"
        then consider "j < length pre" | "j = length pre" by fastforce
        then show "(pre @ [v]) ! j \<le> v"
        proof cases
          case 1
          with Cons.prems(4) have "pre ! j \<le> bv" by simp
          with True 1 show ?thesis by (simp add: nth_append)
        next
          case 2
          then show ?thesis by simp
        qed
      qed
      show "\<forall>j<i. (pre @ [v]) ! j < v"
      proof (intro allI impI)
        fix j assume "j < i"
        with Cons.prems have j: "j < length pre" by simp
        with Cons.prems(4) have "pre ! j \<le> bv" by simp
        with True j show "(pre @ [v]) ! j < v" by (simp add: nth_append)
      qed
    qed
    with True show ?thesis by simp
  next
    case False
    have "argmax_from vs (Suc i) bi bv < length ((pre @ [v]) @ vs)
       \<and> (\<forall>j<length ((pre @ [v]) @ vs). ((pre @ [v]) @ vs) ! j \<le> ((pre @ [v]) @ vs) ! argmax_from vs (Suc i) bi bv)
       \<and> (\<forall>j<argmax_from vs (Suc i) bi bv. ((pre @ [v]) @ vs) ! j < ((pre @ [v]) @ vs) ! argmax_from vs (Suc i) bi bv)"
    proof (rule Cons.IH)
      show "bi < length (pre @ [v])" using Cons.prems by simp
      show "bv = (pre @ [v]) ! bi" using Cons.prems by (simp add: nth_append)
      show "Suc i = length (pre @ [v])" using Cons.prems by simp
      show "\<forall>j<length (pre @ [v]). (pre @ [v]) ! j \<le> bv"
      proof (intro allI impI)
        fix j assume "j < length (pre @ [v])"
        then consider "j < length pre" | "j = length pre" by fastforce
        then show "(pre @ [v]) ! j \<le> bv"
        proof cases
          case 1
          with Cons.prems(4) show ?thesis by (simp add: nth_append)
        next
          case 2
          with False show ?thesis by simp
        qed
      qed
      show "\<forall>j<bi. (pre @ [v]) ! j < bv"
      proof (intro allI impI)
        fix j assume "j < bi"
        with Cons.prems show "(pre @ [v]) ! j < bv" by (simp add: nth_append)
      qed
    qed
    with False show ?thesis by simp
  qed
qed

lemma np_argmax_spec:
  assumes "xs \<noteq> []"
  shows "\<exists>r. np_argmax xs = Inr r \<and> r < length xs
       \<and> (\<forall>j<length xs. xs ! j \<le> xs ! r) \<and> (\<forall>j<r. xs ! j < xs ! r)"
proof -
  from assms obtain v vs where xs: "xs = v # vs" by (cases xs) auto
  have "argmax_from vs 1 0 v < length ([v] @ vs)
       \<and> (\<forall>j<length ([v] @ vs). ([v] @ vs) ! j \<le> ([v] @ vs) ! argmax_from vs 1 0 v)
       \<and> (\<forall>j<argmax_from vs 1 0 v. ([v] @ vs) ! j < ([v] @ vs) ! argmax_from vs 1 0 v)"
    by (rule argmax_from_spec) simp_all
  with xs show ?thesis by simp
qed

lemma fit_inertias_all:
  assumes "\<forall>k\<in>set ks. kmeans_inertia L k a = Inr (f k)"
  shows "fit_inertias L a ks = Inr (map f ks)"
  using assms by (induction ks) simp_all

lemma second_derivative_map:
  assumes "3 \<le> m"
  shows "second_derivative (map f [1..<m + 1]) =
         map (\<lambda>i. discrete_second_derivative f (i + 1)) [1..<m - 1]"
  unfolding second_derivative_def
proof (rule map_cong)
  show "[1..<length (map f [1..<m + 1]) - 1] = [1..<m - 1]" by simp
next
  fix i assume "i \<in> set [1..<m - 1]"
  then have i: "1 \<le> i" "i < m - 1" by simp_all
  have nth: "map f [1..<m + 1] ! j = f (1 + j)" if "j < m" for j
    using that by (simp del: upt_Suc)
  from i have a: "map f [1..<m + 1] ! (i + 1) = f (i + 2)"
    and b: "map f [1..<m + 1] ! i = f (i + 1)"
    and c: "map f [1..<m + 1] ! (i - 1) = f i"
    using nth [of "i + 1"] nth [of i] nth [of "i - 1"] by (simp_all del: upt_Suc)
  show "map f [1..<m + 1] ! (i + 1) - 2 * map f [1..<m + 1] ! i + map f [1..<m + 1] ! (i - 1)
        = discrete_second_derivative f (i + 1)"
    unfolding a b c by (simp add: discrete_second_derivative_def)
qed


lemma suggest_optimal_clusters_unfold:
  assumes "3 \<le> length embeddings" and "np_array embeddings = Inr a"
    and "fit_inertias L a [1..<min 10 (length embeddings - 1) + 1] = Inr vs"
  shows "suggest_optimal_clusters L embeddings =
        (if length vs < 3 then Inr 2
         else case np_argmax (second_derivative vs) of
                Inl e \<Rightarrow> Inl e | Inr elbow \<Rightarrow> Inr (elbow + 2))"
  using assms unfolding suggest_optimal_clusters_def Let_def by (simp del: upt_Suc)

text \<open>
  C4, amended. For fewer than three embeddings \<open>suggest_optimal_clusters\<close> returns 1 and
  fits nothing. For three or more, with \<open>inertia k\<close> the inertia of the KMeans fit for each
  \<open>k\<close> from 1 to \<open>m\<close>, the smaller of 10 and the number of embeddings less one: exactly three
  embeddings (two candidate counts) give the default 2; four or more give the first \<open>k\<close>
  among 2 to \<open>m - 1\<close> at which the discrete second derivative of the inertia is largest.
\<close>

theorem suggest_optimal_clusters_elbow:
  "(length embeddings < 3 \<longrightarrow> suggest_optimal_clusters L embeddings = Inr 1)
   \<and> (3 \<le> length embeddings \<and> np_array embeddings = Inr a
        \<and> (\<forall>k\<in>{1..min 10 (length embeddings - 1)}. kmeans_inertia L k a = Inr (inertia k)) \<longrightarrow>
        (length embeddings = 3 \<longrightarrow> suggest_optimal_clusters L embeddings = Inr 2)
        \<and> (4 \<le> length embeddings \<longrightarrow>
             (\<exists>k. suggest_optimal_clusters L embeddings = Inr k
                \<and> 2 \<le> k \<and> k < min 10 (length embeddings - 1)
                \<and> (\<forall>k'. 2 \<le> k' \<and> k' < min 10 (length embeddings - 1) \<longrightarrow>
                      discrete_second_derivative inertia k' \<le> discrete_second_derivative inertia k)
                \<and> (\<forall>k'. 2 \<le> k' \<and> k' < k \<longrightarrow>
                      discrete_second_derivative inertia k' < discrete_second_derivative inertia k))))"
proof -
  define m where "m = min 10 (length embeddings - 1)"
  have small: "length embeddings < 3 \<longrightarrow> suggest_optimal_clusters L embeddings = Inr 1"
    by (simp add: suggest_optimal_clusters_def)
  have rest: "(length embeddings = 3 \<longrightarrow> suggest_optimal_clusters L embeddings = Inr 2)
        \<and> (4 \<le> length embeddings \<longrightarrow>
             (\<exists>k. suggest_optimal_clusters L embeddings = Inr k
                \<and> 2 \<le> k \<and> k < m
                \<and> (\<forall>k'. 2 \<le> k' \<and> k' < m \<longrightarrow>
                      discrete_second_derivative inertia k' \<le> discrete_second_derivative inertia k)
                \<and> (\<forall>k'. 2 \<le> k' \<and> k' < k \<longrightarrow>
                      discrete_second_derivative inertia k' < discrete_second_derivative inertia k)))"
    if n3: "3 \<le> length embeddings" and arr: "np_array embeddings = Inr a"
      and fits: "\<forall>k\<in>{1..m}. kmeans_inertia L k a = Inr (inertia k)"
  proof -
    have "\<forall>k\<in>set [1..<m + 1]. kmeans_inertia L k a = Inr (inertia k)"
      using fits by auto
    then have fit: "fit_inertias L a [1..<m + 1] = Inr (map inertia [1..<m + 1])"
      by (rule fit_inertias_all)
    have unfold: "suggest_optimal_clusters L embeddings =
        (if m < 3 then Inr 2
         else case np_argmax (second_derivative (map inertia [1..<m + 1])) of
                Inl e \<Rightarrow> Inl e | Inr elbow \<Rightarrow> Inr (elbow + 2))"
      using suggest_optimal_clusters_unfold [OF n3 arr fit [unfolded m_def], folded m_def]
      by (simp del: upt_Suc)
    have three: "suggest_optimal_clusters L embeddings = Inr 2" if "length embeddings = 3"
      using that unfold by (simp add: m_def)
    have more: "\<exists>k. suggest_optimal_clusters L embeddings = Inr k
                \<and> 2 \<le> k \<and> k < m
                \<and> (\<forall>k'. 2 \<le> k' \<and> k' < m \<longrightarrow>
                      discrete_second_derivative inertia k' \<le> discrete_second_derivative inertia k)
                \<and> (\<forall>k'. 2 \<le> k' \<and> k' < k \<longrightarrow>
                      discrete_second_derivative inertia k' < discrete_second_derivative inertia k)"
      if n4: "4 \<le> length embeddings"
    proof -
      from n4 have m3: "3 \<le> m" by (simp add: m_def)
      define sds where "sds = map (\<lambda>i. discrete_second_derivative inertia (i + 1)) [1..<m - 1]"
      have sd: "second_derivative (map inertia [1..<m + 1]) = sds"
        unfolding sds_def by (rule second_derivative_map [OF m3])
      have len: "length sds = m - 2" by (simp add: sds_def)
      have nth: "sds ! j = discrete_second_derivative inertia (j + 2)" if "j < m - 2" for j
      proof -
        from that have "1 + j < m - 1" by simp
        then have "[1..<m - 1] ! j = 1 + j" by (rule nth_upt)
        moreover from that have "j < length [1..<m - 1]" by simp
        ultimately show ?thesis by (simp only: sds_def nth_map) simp
      qed
      from m3 len have "sds \<noteq> []" by auto
      from np_argmax_spec [OF this] obtain r where r: "np_argmax sds = Inr r" "r < length sds"
        and mx: "\<forall>j<length sds. sds ! j \<le> sds ! r" and first: "\<forall>j<r. sds ! j < sds ! r"
        by blast
      from r len have rm: "r < m - 2" by simp
      have res: "suggest_optimal_clusters L embeddings = Inr (r + 2)"
        using unfold m3 r unfolding sd by simp
      have a: "discrete_second_derivative inertia k' \<le> discrete_second_derivative inertia (r + 2)"
        if "2 \<le> k' \<and> k' < m" for k'
      proof -
        from that have j: "k' - 2 < m - 2" "k' - 2 + 2 = k'" by arith+
        with mx len have "sds ! (k' - 2) \<le> sds ! r" by simp
        with nth [OF j(1)] nth [OF rm] j(2) show ?thesis by simp
      qed
      have b: "discrete_second_derivative inertia k' < discrete_second_derivative inertia (r + 2)"
        if "2 \<le> k' \<and> k' < r + 2" for k'
      proof -
        from that rm have j: "k' - 2 < r" "k' - 2 < m - 2" "k' - 2 + 2 = k'" by arith+
        with first have "sds ! (k' - 2) < sds ! r" by simp
        with nth [OF j(2)] nth [OF rm] j(3) show ?thesis by simp
      qed
      from rm have bounds: "2 \<le> r + 2" "r + 2 < m" by simp_all
      show ?thesis
        using res bounds a b by (intro exI [of _ "r + 2"] conjI allI impI)
    qed
    from three more show ?thesis by (intro conjI impI)
  qed
  from small rest show ?thesis
    unfolding m_def by (intro conjI impI) blast+
qed


text \<open>
  C4, as stated, fails: two embeddings leave the single candidate count 1, fewer than
  three, and the result is 1, not the default 2.
\<close>

theorem suggest_two_documents:
  "length [1..<min 10 (length [[0], [1 :: real]] - 1) + 1] < 3
   \<and> suggest_optimal_clusters example_sklearn [[0], [1]] = Inr 1"
  by (simp add: suggest_optimal_clusters_def)

lemma five_docs_array:
  "np_array [[0], [1], [2], [3], [4]] = Inr [[0], [1], [2], [3], [4]]"
  by (simp add: np_array_def)

lemma five_docs_inertias:
  "fit_inertias example_sklearn a [1..<min 10 (length [[0], [1], [2], [3], [4 :: real]] - 1) + 1] =
     Inr [100, 90, 20, 15]"
  by (simp add: upt_rec example_sklearn_def example_inertia_def)

lemma five_docs_suggest:
  "suggest_optimal_clusters example_sklearn [[0], [1], [2], [3], [4]] = Inr 3"
  using suggest_optimal_clusters_unfold [OF _ five_docs_array five_docs_inertias]
  by (simp add: second_derivative_def upt_rec)

lemma three_docs_suggest:
  "suggest_optimal_clusters example_sklearn [[0], [1], [2]] = Inr 2"
  by (simp add: suggest_optimal_clusters_def np_array_def upt_rec example_sklearn_def)

theorem suggest_optimal_clusters_elbow_witness:
  "suggest_optimal_clusters example_sklearn [[0], [1]] = Inr 1
   \<and> np_array [[0], [1], [2]] = Inr [[0], [1], [2]]
   \<and> suggest_optimal_clusters example_sklearn [[0], [1], [2]] = Inr 2
   \<and> np_array [[0], [1], [2], [3], [4]] = Inr [[0], [1], [2], [3], [4]]
   \<and> suggest_optimal_clusters example_sklearn [[0], [1], [2], [3], [4]] = Inr 3
   \<and> discrete_second_derivative example_inertia 2 < discrete_second_derivative example_inertia 3"
  using
    suggest_optimal_clusters_elbow [of "[[0], [1]]" example_sklearn]
    suggest_optimal_clusters_elbow [of "[[0], [1], [2]]" example_sklearn "[[0], [1], [2]]"
      example_inertia]
    suggest_optimal_clusters_elbow [of "[[0], [1], [2], [3], [4]]" example_sklearn
      "[[0], [1], [2], [3], [4]]" example_inertia]
  by (simp add: five_docs_suggest three_docs_suggest five_docs_array)
    (simp add: np_array_def discrete_second_derivative_def example_inertia_def)

subsection \<open>Normalization of the positions\<close>

lemma map2_replicate:
  "map2 f xs (replicate (length xs) z) = map (\<lambda>x. f x z) xs"
  by (induction xs) simp_all

lemma shape1_rows:
  assumes "p \<noteq> []" and "\<forall>r\<in>set p. length r = k"
  shows "shape1 p = k"
  using assms by (cases p) (simp_all add: shape1_def)

lemma pca_positions_shape:
  assumes shapes: "sklearn_shapes L" and ne: "a \<noteq> []" and res: "pca_positions L a = Inr p"
  shows "length p = length a \<and> (\<forall>r\<in>set p. length r = 3)"
proof (cases "length a = 1")
  case True
  with res show ?thesis
    by (auto simp: pca_positions_def np_zeros_def)
next
  case False
  define k where "k = min 3 (min (length a) (shape1 a))"
  from res False obtain scaled q where sc: "scaler_fit_transform L a = Inr scaled"
    and q: "pca_fit_transform L k scaled = Inr q"
    and p: "p = (if shape1 q < 3 then np_hstack q (np_zeros (length q) (3 - shape1 q)) else q)"
    by (auto simp: pca_positions_def Let_def k_def split: sum.splits if_splits)
  from shapes sc have "length scaled = length a"
    unfolding sklearn_shapes_def by blast
  moreover from shapes q have "length q = length scaled \<and> list_all (\<lambda>r. length r = k) q"
    unfolding sklearn_shapes_def by blast
  ultimately have lq: "length q = length a" and rq: "\<forall>r\<in>set q. length r = k"
    by (simp_all add: list_all_iff)
  from lq ne have "q \<noteq> []" by auto
  then have s1: "shape1 q = k" using rq by (rule shape1_rows)
  have k3: "k \<le> 3" by (simp add: k_def)
  show ?thesis
  proof (cases "k < 3")
    case True
    with p s1 have "p = map (\<lambda>r. r @ replicate (3 - k) 0) q"
      by (simp add: np_hstack_def np_zeros_def map2_replicate)
    with lq rq True show ?thesis by auto
  next
    case False
    with k3 have "k = 3" by simp
    with p s1 lq rq show ?thesis by simp
  qed
qed

lemma tsne_positions_shape:
  assumes shapes: "sklearn_shapes L" and ne: "a \<noteq> []" and res: "tsne_positions L a = Inr p"
  shows "length p = length a \<and> (\<forall>r\<in>set p. length r = 3)"
proof (cases "tsne_importable L")
  case False
  with res have "pca_positions L a = Inr p" by (simp add: tsne_positions_def)
  with shapes ne show ?thesis by (rule pca_positions_shape)
next
  case True
  show ?thesis
  proof (cases "length a = 1")
    case one: True
    with True res show ?thesis by (auto simp: tsne_positions_def np_zeros_def)
  next
    case many: False
    show ?thesis
    proof (cases "tsne_fit_transform L (min 30 (length a - 1)) a")
      case (Inl e)
      with True many res have "pca_positions L a = Inr p"
        by (cases e) (simp_all add: tsne_positions_def)
      with shapes ne show ?thesis by (rule pca_positions_shape)
    next
      case (Inr q)
      with True many res have "q = p" by (simp add: tsne_positions_def)
      with Inr shapes have "length p = length a \<and> list_all (\<lambda>r. length r = 3) p"
        unfolding sklearn_shapes_def by blast
      then show ?thesis by (simp add: list_all_iff)
    qed
  qed
qed

lemma umap_positions_shape:
  assumes shapes: "sklearn_shapes L" and ne: "a \<noteq> []" and res: "umap_positions L a = Inr p"
  shows "length p = length a \<and> (\<forall>r\<in>set p. length r = 3)"
proof (cases "umap_importable L")
  case False
  with res have "pca_positions L a = Inr p" by (simp add: umap_positions_def)
  with shapes ne show ?thesis by (rule pca_positions_shape)
next
  case True
  show ?thesis
  proof (cases "length a = 1")
    case one: True
    with True res show ?thesis by (auto simp: umap_positions_def np_zeros_def)
  next
    case many: False
    show ?thesis
    proof (cases "umap_fit_transform L (min 15 (length a - 1)) a")
      case (Inl e)
      with True many res have "pca_positions L a = Inr p"
        by (cases e) (simp_all add: umap_positions_def)
      with shapes ne show ?thesis by (rule pca_positions_shape)
    next
      case (Inr q)
      with True many res have "q = p" by (simp add: umap_positions_def)
      with Inr shapes have "length p = length a \<and> list_all (\<lambda>r. length r = 3) p"
        unfolding sklearn_shapes_def by blast
      then show ?thesis by (simp add: list_all_iff)
    qed
  qed
qed

lemma projected_positions_shape:
  assumes "sklearn_shapes L" and "a \<noteq> []" and "projected_positions L a method = Inr p"
  shows "length p = length a \<and> (\<forall>r\<in>set p. length r = 3)"
  using assms pca_positions_shape tsne_positions_shape umap_positions_shape
  unfolding projected_positions_def by (auto split: if_splits)


lemma np_max_spec:
  assumes "xs \<noteq> []"
  shows "\<exists>m. np_max xs = Inr m \<and> m \<in> set xs \<and> (\<forall>v\<in>set xs. v \<le> m)"
proof -
  from assms obtain v vs where xs: "xs = v # vs" by (cases xs) auto
  have "fold max vs v = Max (set (v # vs))"
    by (simp only: Max.set_eq_fold)
  moreover have "Max (set (v # vs)) \<in> set (v # vs)"
    by (rule Max_in) simp_all
  moreover have "\<forall>w\<in>set (v # vs). w \<le> Max (set (v # vs))"
    by (intro ballI Max_ge) simp_all
  ultimately show ?thesis using xs by simp
qed

lemma linalg_norm_scale: "linalg_norm (map (\<lambda>t. t * s) r) = \<bar>s\<bar> * linalg_norm r"
proof -
  have "sum_list (map (\<lambda>t. (t * s) * (t * s)) r) = (s * s) * sum_list (map (\<lambda>t. t * t) r)"
    by (induction r) (simp_all add: algebra_simps)
  then have "linalg_norm (map (\<lambda>t. t * s) r) = sqrt ((s * s) * sum_list (map (\<lambda>t. t * t) r))"
    by (simp add: linalg_norm_def comp_def)
  also have "\<dots> = sqrt (s * s) * sqrt (sum_list (map (\<lambda>t. t * t) r))"
    by (rule real_sqrt_mult)
  also have "sqrt (s * s) = \<bar>s\<bar>"
    by (rule real_sqrt_abs2)
  finally show ?thesis by (simp add: linalg_norm_def)
qed

lemma mean_axis0_nth:
  assumes "p \<noteq> []" and "\<forall>r\<in>set p. length r = 3" and "c < 3"
  shows "mean_axis0 p ! c = sum_list (map (\<lambda>r. r ! c) p) / real (length p)"
    and "length (mean_axis0 p) = 3"
proof -
  from assms(1,2) have "shape1 p = 3" by (rule shape1_rows)
  with assms(3) show "mean_axis0 p ! c = sum_list (map (\<lambda>r. r ! c) p) / real (length p)"
    and "length (mean_axis0 p) = 3"
    by (simp_all add: mean_axis0_def)
qed

lemma centred_rows:
  assumes "p \<noteq> []" and "\<forall>r\<in>set p. length r = 3"
  shows "length (centred p) = length p \<and> (\<forall>r\<in>set (centred p). length r = 3)"
  using assms mean_axis0_nth(2) [OF assms, of 0]
  by (auto simp: centred_def sub_rows_def)

lemma centred_column_sum:
  assumes ne: "p \<noteq> []" and rows: "\<forall>r\<in>set p. length r = 3" and c: "c < 3"
  shows "sum_list (map (\<lambda>r. r ! c) (centred p)) = 0"
proof -
  define mu where "mu = mean_axis0 p"
  have lmu: "length mu = 3" and mc: "mu ! c = sum_list (map (\<lambda>r. r ! c) p) / real (length p)"
    unfolding mu_def using mean_axis0_nth [OF ne rows c] by simp_all
  have "map (\<lambda>r. r ! c) (centred p) = map (\<lambda>r. map2 (-) r mu ! c) p"
    by (simp add: centred_def sub_rows_def mu_def comp_def)
  also have "\<dots> = map (\<lambda>r. r ! c - mu ! c) p"
  proof (rule map_cong)
    fix r assume "r \<in> set p"
    with rows have "length r = 3" by simp
    with lmu c show "map2 (-) r mu ! c = r ! c - mu ! c" by simp
  qed simp
  finally have "sum_list (map (\<lambda>r. r ! c) (centred p))
      = sum_list (map (\<lambda>r. r ! c) p) - real (length p) * mu ! c"
    by (simp add: sum_list_subtractf sum_list_triv)
  also from ne have "real (length p) * mu ! c = sum_list (map (\<lambda>r. r ! c) p)"
    by (simp add: mc)
  finally show ?thesis by simp
qed

lemma scaled_column_sum:
  assumes "\<forall>r\<in>set q. c < length r"
  shows "sum_list (map (\<lambda>r. r ! c) (scale_rows q s)) = sum_list (map (\<lambda>r. r ! c) q) * s"
proof -
  have "map (\<lambda>r. r ! c) (scale_rows q s) = map (\<lambda>r. r ! c * s) q"
    unfolding scale_rows_def map_map comp_def
    by (rule map_cong) (use assms in simp_all)
  then show ?thesis by (simp add: sum_list_mult_const)
qed

lemma to_dicts_rows:
  assumes "\<forall>r\<in>set q. length r = 3"
  shows "to_dicts q = Inr (map position_of q)"
  using assms
proof (induction q)
  case Nil
  show ?case by simp
next
  case (Cons r q)
  then have "length r = 3" by simp
  then obtain a b c where r: "r = [a, b, c]"
    by (cases r; cases "tl r"; cases "tl (tl r)") auto
  with Cons show ?case by (simp add: position_of_def)
qed

lemma distance_position_of:
  assumes "length r = 3"
  shows "distance_from_origin (position_of r) = linalg_norm r"
proof -
  from assms obtain a b c where r: "r = [a, b, c]"
    by (cases r; cases "tl r"; cases "tl (tl r)") auto
  then show ?thesis
    by (simp add: distance_from_origin_def position_of_def linalg_norm_def)
qed


lemma normalize_positions_spec:
  assumes ne: "p \<noteq> []" and rows: "\<forall>r\<in>set p. length r = 3"
  shows "\<exists>q. normalize_positions p = Inr q \<and> length q = length p
       \<and> (\<forall>r\<in>set q. length r = 3)
       \<and> (\<forall>c<3. sum_list (map (\<lambda>r. r ! c) q) = 0)
       \<and> (\<forall>r\<in>set q. linalg_norm r \<le> 10)
       \<and> (\<forall>m. max_dist_of (centred p) = Inr m \<and> 0 < m \<longrightarrow> (\<exists>r\<in>set q. linalg_norm r = 10))"
proof -
  define C where "C = centred p"
  have lC: "length C = length p" and rC: "\<forall>r\<in>set C. length r = 3"
    using centred_rows [OF ne rows] by (simp_all add: C_def)
  have sumC: "sum_list (map (\<lambda>r. r ! c) C) = 0" if "c < 3" for c
    unfolding C_def using ne rows that by (rule centred_column_sum)
  from ne lC have "map linalg_norm C \<noteq> []" by auto
  from np_max_spec [OF this] obtain m where m: "max_dist_of C = Inr m"
    and m_in: "m \<in> set (map linalg_norm C)" and m_ge: "\<forall>v\<in>set (map linalg_norm C). v \<le> m"
    by (auto simp: max_dist_of_def)
  from ne rows have "shape1 p = 3" by (rule shape1_rows)
  with ne have size: "np_size p \<noteq> 0" by (simp add: np_size_def)
  show ?thesis
  proof (cases "0 < m")
    case True
    define s where "s = 10 / m"
    define q where "q = scale_rows C s"
    from True have s_pos: "0 < s" and sm: "s * m = 10" by (simp_all add: s_def)
    have res: "normalize_positions p = Inr q"
      using size m True by (simp add: normalize_positions_def C_def [symmetric] q_def s_def)
    have lq: "length q = length p" by (simp add: q_def scale_rows_def lC)
    have rq: "\<forall>r\<in>set q. length r = 3" using rC by (auto simp: q_def scale_rows_def)
    have sums: "\<forall>c<3. sum_list (map (\<lambda>r. r ! c) q) = 0"
    proof (intro allI impI)
      fix c :: nat assume c: "c < 3"
      with rC have "\<forall>r\<in>set C. c < length r" by simp
      then have "sum_list (map (\<lambda>r. r ! c) q) = sum_list (map (\<lambda>r. r ! c) C) * s"
        unfolding q_def by (rule scaled_column_sum)
      with sumC [OF c] show "sum_list (map (\<lambda>r. r ! c) q) = 0" by simp
    qed
    have norm_q: "linalg_norm (map (\<lambda>t. t * s) r) = s * linalg_norm r" for r
      using s_pos by (simp add: linalg_norm_scale)
    have bound: "\<forall>r\<in>set q. linalg_norm r \<le> 10"
    proof
      fix r assume "r \<in> set q"
      then obtain r0 where r0: "r0 \<in> set C" and r: "r = map (\<lambda>t. t * s) r0"
        by (auto simp: q_def scale_rows_def)
      from r0 m_ge have "linalg_norm r0 \<le> m" by simp
      with s_pos have "s * linalg_norm r0 \<le> s * m" by simp
      with r sm show "linalg_norm r \<le> 10" by (simp add: norm_q)
    qed
    from m_in obtain r0 where r0: "r0 \<in> set C" and "linalg_norm r0 = m" by auto
    then have "linalg_norm (map (\<lambda>t. t * s) r0) = 10" by (simp add: norm_q sm)
    moreover from r0 have "map (\<lambda>t. t * s) r0 \<in> set q" by (simp add: q_def scale_rows_def)
    ultimately have attained: "\<exists>r\<in>set q. linalg_norm r = 10" by blast
    from res lq rq sums bound attained show ?thesis by blast
  next
    case False
    have res: "normalize_positions p = Inr C"
      using size m False by (simp add: normalize_positions_def C_def [symmetric])
    have bound: "\<forall>r\<in>set C. linalg_norm r \<le> 10"
    proof
      fix r assume "r \<in> set C"
      with m_ge have "linalg_norm r \<le> m" by simp
      with False show "linalg_norm r \<le> 10" by simp
    qed
    have none: "\<forall>m'. max_dist_of (centred p) = Inr m' \<and> 0 < m' \<longrightarrow>
        (\<exists>r\<in>set C. linalg_norm r = 10)"
      using m False by (simp add: C_def)
    have sums: "\<forall>c<3. sum_list (map (\<lambda>r. r ! c) C) = 0"
      using sumC by simp
    from res lC rC sums bound none show ?thesis by blast
  qed
qed

lemma centroid_position_of:
  assumes "\<forall>c<3. sum_list (map (\<lambda>r. r ! c) q) = 0"
  shows "centroid (map position_of q) = origin"
proof -
  have "sum_list (map (\<lambda>r. r ! 0) q) = 0" "sum_list (map (\<lambda>r. r ! 1) q) = 0"
    "sum_list (map (\<lambda>r. r ! 2) q) = 0"
    using assms by simp_all
  then show ?thesis
    by (simp add: centroid_def origin_def comp_def position_of_def)
qed

text \<open>
  C1. Let the libraries return arrays of the documented shapes, and let the projection
  of a non-empty list of embeddings by any method return an array \<open>p\<close>. Then
  \<open>calculate_3d_positions\<close> returns one position per embedding; the centroid of the positions
  is the origin; every position is at distance at most 10 from the origin; and when the
  largest distance of a centred row of \<open>p\<close> is positive, some position is at distance exactly
  10, which is then the maximum.
\<close>

theorem normalized_positions_invariant:
  assumes "sklearn_shapes L" and "embeddings \<noteq> []"
    and "np_array embeddings = Inr a"
    and "projected_positions L a method = Inr p"
  shows "\<exists>ps. calculate_3d_positions L embeddings method = Inr ps
       \<and> length ps = length embeddings
       \<and> centroid ps = origin
       \<and> (\<forall>pos\<in>set ps. distance_from_origin pos \<le> 10)
       \<and> (\<forall>m. max_dist_of (centred p) = Inr m \<and> 0 < m \<longrightarrow>
             (\<exists>pos\<in>set ps. distance_from_origin pos = 10))"
proof -
  from assms(3) have a: "a = embeddings" by (rule np_array_length)
  with assms(2) have ne: "a \<noteq> []" by simp
  from projected_positions_shape [OF assms(1) ne assms(4)]
  have lp: "length p = length a" and rp: "\<forall>r\<in>set p. length r = 3" by simp_all
  from lp ne have pne: "p \<noteq> []" by auto
  from normalize_positions_spec [OF pne rp] obtain q where
    q: "normalize_positions p = Inr q" and lq: "length q = length p"
    and rq: "\<forall>r\<in>set q. length r = 3"
    and sums: "\<forall>c<3. sum_list (map (\<lambda>r. r ! c) q) = 0"
    and bound: "\<forall>r\<in>set q. linalg_norm r \<le> 10"
    and attained: "\<forall>m. max_dist_of (centred p) = Inr m \<and> 0 < m \<longrightarrow>
        (\<exists>r\<in>set q. linalg_norm r = 10)"
    by blast
  define ps where "ps = map position_of q"
  have res: "calculate_3d_positions L embeddings method = Inr ps"
    using assms(2,3,4) q to_dicts_rows [OF rq]
    by (simp add: calculate_3d_positions_def ps_def)
  have len: "length ps = length embeddings"
    by (simp add: ps_def lq lp a)
  have cen: "centroid ps = origin"
    unfolding ps_def using sums by (rule centroid_position_of)
  have dist: "distance_from_origin (position_of r) = linalg_norm r" if "r \<in> set q" for r
    using that rq by (simp add: distance_position_of)
  have bnd: "\<forall>pos\<in>set ps. distance_from_origin pos \<le> 10"
    using bound dist by (auto simp: ps_def)
  have att: "\<forall>m. max_dist_of (centred p) = Inr m \<and> 0 < m \<longrightarrow>
             (\<exists>pos\<in>set ps. distance_from_origin pos = 10)"
  proof (intro allI impI)
    fix m assume "max_dist_of (centred p) = Inr m \<and> 0 < m"
    with attained obtain r where r: "r \<in> set q" "linalg_norm r = 10" by blast
    then have "position_of r \<in> set ps" "distance_from_origin (position_of r) = 10"
      by (simp_all add: ps_def dist)
    then show "\<exists>pos\<in>set ps. distance_from_origin pos = 10" by blast
  qed
  from res len cen bnd att show ?thesis by blast
qed


lemma sqrt_100: "sqrt 100 = 10"
  using real_sqrt_abs [of 10] by simp

lemma two_docs_projected:
  "projected_positions example_sklearn [[0, 0], [3, 4]] ''pca'' = Inr [[0, 0, 0], [3, 4, 0]]"
  by (simp add: projected_positions_def two_docs_pca)

lemma two_docs_max_dist: "max_dist_of (centred [[0, 0, 0], [3, 4, 0]]) = Inr (5 / 2)"
  by (simp add: two_docs_centred max_dist_of_def norm_centred_a norm_centred_b)

theorem normalized_positions_invariant_witness:
  "sklearn_shapes example_sklearn
   \<and> np_array [[0, 0], [3, 4]] = Inr [[0, 0], [3, 4]]
   \<and> projected_positions example_sklearn [[0, 0], [3, 4]] ''pca'' = Inr [[0, 0, 0], [3, 4, 0]]
   \<and> max_dist_of (centred [[0, 0, 0], [3, 4, 0]]) = Inr (5 / 2)
   \<and> calculate_3d_positions example_sklearn [[0, 0], [3, 4]] ''pca'' =
       Inr [\<lparr>pos_x = - 6, pos_y = - 8, pos_z = 0\<rparr>, \<lparr>pos_x = 6, pos_y = 8, pos_z = 0\<rparr>]
   \<and> centroid [\<lparr>pos_x = - 6, pos_y = - 8, pos_z = 0\<rparr>, \<lparr>pos_x = 6, pos_y = 8, pos_z = 0\<rparr>] = origin
   \<and> distance_from_origin \<lparr>pos_x = - 6, pos_y = - 8, pos_z = 0\<rparr> = 10
   \<and> distance_from_origin \<lparr>pos_x = 6, pos_y = 8, pos_z = 0\<rparr> = 10"
proof -
  have ne: "[[0, 0], [3, 4 :: real]] \<noteq> []" by simp
  from normalized_positions_invariant [OF example_sklearn_shapes ne two_docs_array
      two_docs_projected]
  have "centroid [\<lparr>pos_x = - 6, pos_y = - 8, pos_z = 0\<rparr>, \<lparr>pos_x = 6, pos_y = 8, pos_z = 0\<rparr>] = origin"
    by (simp add: two_docs_positions_pca)
  then show ?thesis
    by (simp add: example_sklearn_shapes two_docs_array two_docs_projected two_docs_max_dist
        two_docs_positions_pca distance_from_origin_def sqrt_100)
qed

subsection \<open>Cluster summaries\<close>

lemma add_member_keys:
  "map fst (add_member cl l i p) = (if l \<in> set (map fst cl) then map fst cl else map fst cl @ [l])"
  by (induction cl l i p rule: add_member.induct) auto

lemma add_member_map_of:
  "map_of (add_member cl l i p) =
     (map_of cl)(l \<mapsto> (case map_of cl l of None \<Rightarrow> ([i], [p])
                                         | Some (ds, ps) \<Rightarrow> (ds @ [i], ps @ [p])))"
  by (induction cl l i p rule: add_member.induct) (auto simp: fun_eq_iff)

lemma map_of_key: "map_of cl l = Some v \<Longrightarrow> l \<in> set (map fst cl)"
  by (force dest: map_of_SomeD)

lemma grouping_inv_skip:
  assumes "grouping_inv pa cl seen"
  shows "grouping_inv pa cl (seen @ [(i, - 1)])"
proof -
  have keys: "l \<noteq> - 1" if "map_of cl l = Some v" for l v
  proof -
    from that have "l \<in> set (map fst cl)" by (rule map_of_key)
    with assms show ?thesis by (auto simp: grouping_inv_def)
  qed
  show ?thesis
    unfolding grouping_inv_def
  proof (intro conjI allI impI)
    show "distinct (map fst cl)" using assms by (simp add: grouping_inv_def)
    show "set (map fst cl) = snd ` set (seen @ [(i, - 1)]) - {- 1}"
      using assms by (auto simp: grouping_inv_def)
    show "\<forall>q\<in>set (seen @ [(i, - 1)]). snd q \<noteq> - 1 \<longrightarrow> fst q < length pa"
      using assms by (auto simp: grouping_inv_def)
  next
    fix l ds ps assume m: "map_of cl l = Some (ds, ps)"
    from keys [OF m] have "filter (\<lambda>q. snd q = l) (seen @ [(i, - 1)]) = filter (\<lambda>q. snd q = l) seen"
      by auto
    moreover from assms m have "ds = map fst (filter (\<lambda>q. snd q = l) seen)"
      and "ps = map (\<lambda>i. pa ! i) ds"
      unfolding grouping_inv_def by blast+
    ultimately show "ds = map fst (filter (\<lambda>q. snd q = l) (seen @ [(i, - 1)]))"
      and "ps = map (\<lambda>i. pa ! i) ds" by simp_all
  qed
qed


lemma grouping_inv_add:
  assumes inv: "grouping_inv pa cl seen" and lab: "label \<noteq> - 1" and i: "i < length pa"
  shows "grouping_inv pa (add_member cl label i (pa ! i)) (seen @ [(i, label)])"
proof -
  from inv have dist: "distinct (map fst cl)"
    and keys: "set (map fst cl) = snd ` set seen - {- 1}"
    and rng: "\<forall>q\<in>set seen. snd q \<noteq> - 1 \<longrightarrow> fst q < length pa"
    and ent: "\<And>l ds ps. map_of cl l = Some (ds, ps) \<Longrightarrow>
         ds = map fst (filter (\<lambda>q. snd q = l) seen) \<and> ps = map (\<lambda>i. pa ! i) ds"
    unfolding grouping_inv_def by blast+
  show ?thesis
    unfolding grouping_inv_def
  proof (intro conjI allI impI)
    show "distinct (map fst (add_member cl label i (pa ! i)))"
      using dist by (simp add: add_member_keys)
    show "set (map fst (add_member cl label i (pa ! i))) = snd ` set (seen @ [(i, label)]) - {- 1}"
      using keys lab by (auto simp: add_member_keys)
    show "\<forall>q\<in>set (seen @ [(i, label)]). snd q \<noteq> - 1 \<longrightarrow> fst q < length pa"
      using rng i by auto
  next
    fix l ds ps
    assume m: "map_of (add_member cl label i (pa ! i)) l = Some (ds, ps)"
    have "ds = map fst (filter (\<lambda>q. snd q = l) (seen @ [(i, label)])) \<and> ps = map (\<lambda>i. pa ! i) ds"
    proof (cases "l = label")
      case False
      with m have "map_of cl l = Some (ds, ps)" by (simp add: add_member_map_of)
      from ent [OF this] False show ?thesis by simp
    next
      case True
      show ?thesis
      proof (cases "map_of cl label")
        case None
        then have "label \<notin> set (map fst cl)" by (simp add: map_of_eq_None_iff)
        with keys lab have "label \<notin> snd ` set seen" by simp
        then have "filter (\<lambda>q. snd q = label) seen = []"
          by (auto simp: filter_empty_conv)
        moreover from m True None have "ds = [i]" "ps = [pa ! i]"
          by (simp_all add: add_member_map_of)
        ultimately show ?thesis using True by simp
      next
        case (Some v)
        obtain ds0 ps0 where v: "v = (ds0, ps0)" by (cases v)
        with Some have old: "map_of cl label = Some (ds0, ps0)" by simp
        from ent [OF old] have "ds0 = map fst (filter (\<lambda>q. snd q = label) seen)"
          and "ps0 = map (\<lambda>i. pa ! i) ds0" by simp_all
        moreover from m True old have "ds = ds0 @ [i]" "ps = ps0 @ [pa ! i]"
          by (simp_all add: add_member_map_of)
        ultimately show ?thesis using True by simp
      qed
    qed
    then show "ds = map fst (filter (\<lambda>q. snd q = l) (seen @ [(i, label)]))"
      and "ps = map (\<lambda>i. pa ! i) ds" by simp_all
  qed
qed

lemma group_labels_inv:
  assumes "group_labels pa rest cl = Inr cl'" and "grouping_inv pa cl seen"
  shows "grouping_inv pa cl' (seen @ rest)"
  using assms
proof (induction pa rest cl arbitrary: seen rule: group_labels.induct)
  case (1 pa cl)
  then show ?case by simp
next
  case (2 pa i label rest cl)
  show ?case
  proof (cases "label = - 1")
    case True
    with "2.prems" have "group_labels pa rest cl = Inr cl'" by simp
    moreover from "2.prems"(2) have "grouping_inv pa cl (seen @ [(i, - 1)])"
      by (rule grouping_inv_skip)
    ultimately have "grouping_inv pa cl' ((seen @ [(i, - 1)]) @ rest)"
      using True by (intro "2.IH"(1))
    with True show ?thesis by simp
  next
    case False
    with "2.prems" have i: "i < length pa"
      and run: "group_labels pa rest (add_member cl label i (pa ! i)) = Inr cl'"
      by (simp_all split: if_splits)
    from "2.prems"(2) False i
    have "grouping_inv pa (add_member cl label i (pa ! i)) (seen @ [(i, label)])"
      by (rule grouping_inv_add)
    with run have "grouping_inv pa cl' ((seen @ [(i, label)]) @ rest)"
      using False i by (intro "2.IH"(2))
    then show ?thesis by simp
  qed
qed

lemma grouping_inv_empty: "grouping_inv pa [] []"
  by (simp add: grouping_inv_def)

lemma enumerate_indices:
  "map fst (filter (\<lambda>q. snd q = l) (enumerate 0 labels)) =
   filter (\<lambda>i. labels ! i = l) [0..<length labels]"
proof -
  have "enumerate 0 labels = map (\<lambda>i. (i, labels ! i)) [0..<length labels]"
    by (rule nth_equalityI) (simp_all add: nth_enumerate_eq)
  then show ?thesis
    by (simp add: filter_map comp_def)
qed


lemma summary_of_fields:
  "cluster_id (summary_of (l, ds, ps)) = l"
  "document_indices (summary_of (l, ds, ps)) = ds"
  "cluster_size (summary_of (l, ds, ps)) = length ds"
  by (simp_all add: summary_of_def Let_def)

lemma summary_of_center:
  assumes ne: "ds \<noteq> []" and rng: "\<forall>i\<in>set ds. i < length positions"
  shows "center (summary_of (l, ds, map (\<lambda>i. map row_of_position positions ! i) ds)) =
         mean_position positions ds"
proof -
  define ps where "ps = map (\<lambda>i. map row_of_position positions ! i) ds"
  have ps: "ps = map (\<lambda>i. row_of_position (positions ! i)) ds"
    unfolding ps_def by (rule map_cong) (use rng in simp_all)
  from ne have pne: "ps \<noteq> []" by (simp add: ps)
  have rows: "\<forall>r\<in>set ps. length r = 3" by (auto simp: ps row_of_position_def)
  have col: "mean_axis0 ps ! c = sum_list (map (\<lambda>r. r ! c) ps) / real (length ps)" if "c < 3" for c
    using pne rows that by (rule mean_axis0_nth(1))
  have "mean_axis0 ps ! 0 = sum_list (map (\<lambda>i. pos_x (positions ! i)) ds) / real (length ds)"
    "mean_axis0 ps ! 1 = sum_list (map (\<lambda>i. pos_y (positions ! i)) ds) / real (length ds)"
    "mean_axis0 ps ! 2 = sum_list (map (\<lambda>i. pos_z (positions ! i)) ds) / real (length ds)"
    by (simp_all add: col) (simp_all add: ps comp_def row_of_position_def)
  then show ?thesis
    unfolding ps_def [symmetric]
    by (simp add: summary_of_def Let_def mean_position_def centroid_def comp_def)
qed

lemma calculate_cluster_info_spec:
  assumes res: "calculate_cluster_info positions labels = Inr cs"
  shows "distinct (map cluster_id cs)
       \<and> (positions \<noteq> [] \<longrightarrow> set (map cluster_id cs) = set labels - {- 1})
       \<and> (\<forall>c\<in>set cs.
             cluster_id c \<noteq> - 1
           \<and> document_indices c = filter (\<lambda>i. labels ! i = cluster_id c) [0..<length labels]
           \<and> document_indices c \<noteq> []
           \<and> (\<forall>i\<in>set (document_indices c). i < length positions)
           \<and> cluster_size c = length (document_indices c)
           \<and> center c = mean_position positions (document_indices c))"
proof (cases "positions = [] \<or> labels = []")
  case True
  with res have "cs = []" by (simp add: calculate_cluster_info_def)
  with True show ?thesis by auto
next
  case False
  define pa where "pa = map row_of_position positions"
  define seen where "seen = enumerate 0 labels"
  from res False obtain cl where run: "group_labels pa seen [] = Inr cl"
    and cs: "cs = map summary_of cl"
    by (auto simp: calculate_cluster_info_def pa_def seen_def split: sum.splits)
  from group_labels_inv [OF run grouping_inv_empty]
  have inv: "grouping_inv pa cl seen" by simp
  then have dist: "distinct (map fst cl)"
    and keys: "set (map fst cl) = snd ` set seen - {- 1}"
    and rng: "\<forall>q\<in>set seen. snd q \<noteq> - 1 \<longrightarrow> fst q < length pa"
    and ent: "\<And>l ds ps. map_of cl l = Some (ds, ps) \<Longrightarrow>
         ds = map fst (filter (\<lambda>q. snd q = l) seen) \<and> ps = map (\<lambda>i. pa ! i) ds"
    unfolding grouping_inv_def by blast+
  have "set (map snd (enumerate 0 labels)) = set labels"
    by (simp only: map_snd_enumerate)
  then have snd_seen: "snd ` set seen = set labels"
    unfolding seen_def by (simp only: set_map)
  have ids: "map cluster_id cs = map fst cl"
    unfolding cs map_map by (rule map_cong) (auto simp: summary_of_fields)
  have each: "cluster_id c \<noteq> - 1
           \<and> document_indices c = filter (\<lambda>i. labels ! i = cluster_id c) [0..<length labels]
           \<and> document_indices c \<noteq> []
           \<and> (\<forall>i\<in>set (document_indices c). i < length positions)
           \<and> cluster_size c = length (document_indices c)
           \<and> center c = mean_position positions (document_indices c)" if "c \<in> set cs" for c
  proof -
    from that cs obtain l ds ps where mem: "(l, ds, ps) \<in> set cl" and c: "c = summary_of (l, ds, ps)"
      by auto
    from dist mem have m: "map_of cl l = Some (ds, ps)" by (rule map_of_is_SomeI)
    from ent [OF m] have ds: "ds = map fst (filter (\<lambda>q. snd q = l) seen)"
      and ps: "ps = map (\<lambda>i. pa ! i) ds" by simp_all
    from mem have "l \<in> set (map fst cl)" by force
    with keys have l: "l \<noteq> - 1" and "l \<in> snd ` set seen" by simp_all
    then have ne: "ds \<noteq> []" unfolding ds by (auto simp: filter_empty_conv)
    have r: "\<forall>i\<in>set ds. i < length positions"
      using rng l unfolding ds by (auto simp: pa_def)
    have idx: "ds = filter (\<lambda>i. labels ! i = l) [0..<length labels]"
      unfolding ds seen_def by (rule enumerate_indices)
    have cen: "center c = mean_position positions ds"
      unfolding c ps pa_def using ne r by (rule summary_of_center)
    from l idx ne r cen show ?thesis
      by (simp add: c summary_of_fields)
  qed
  from dist keys snd_seen each show ?thesis
    by (simp only: ids) blast
qed


text \<open>
  C8. \<open>organize_spatial_layout\<close> returns the empty layout, and no error, when there are
  no documents or no embeddings. When it returns a layout for non-empty input, the
  summaries are computed from the positions and labels it obtained: their cluster ids
  are distinct and none is -1; with at least one position they are exactly the labels
  other than -1; each summary lists exactly the indices whose label is its id, in
  increasing order; its size is the number of these indices; and its center is the mean of
  the positions at these indices.
\<close>

theorem organize_spatial_layout_summaries:
  "organize_spatial_layout L [] embeddings = Inr \<lparr>documents = [], clusters = [], connections = []\<rparr>
   \<and> organize_spatial_layout L docs [] = Inr \<lparr>documents = [], clusters = [], connections = []\<rparr>
   \<and> (docs \<noteq> [] \<and> embeddings \<noteq> [] \<and> organize_spatial_layout L docs embeddings = Inr out \<longrightarrow>
        (\<exists>positions labels.
            calculate_3d_positions L embeddings ''pca'' = Inr positions
          \<and> cluster_documents L embeddings ''hdbscan'' None = Inr labels
          \<and> distinct (map cluster_id (clusters out))
          \<and> (positions \<noteq> [] \<longrightarrow> set (map cluster_id (clusters out)) = set labels - {- 1})
          \<and> (\<forall>c\<in>set (clusters out).
                cluster_id c \<noteq> - 1
              \<and> document_indices c = filter (\<lambda>i. labels ! i = cluster_id c) [0..<length labels]
              \<and> document_indices c \<noteq> []
              \<and> (\<forall>i\<in>set (document_indices c). i < length positions)
              \<and> cluster_size c = length (document_indices c)
              \<and> center c = mean_position positions (document_indices c))))"
proof -
  have e1: "organize_spatial_layout L [] embeddings =
      Inr \<lparr>documents = [], clusters = [], connections = []\<rparr>"
    by (simp add: organize_spatial_layout_def)
  have e2: "organize_spatial_layout L docs [] =
      Inr \<lparr>documents = [], clusters = [], connections = []\<rparr>"
    by (simp add: organize_spatial_layout_def)
  have main: "\<exists>positions labels.
            calculate_3d_positions L embeddings ''pca'' = Inr positions
          \<and> cluster_documents L embeddings ''hdbscan'' None = Inr labels
          \<and> distinct (map cluster_id (clusters out))
          \<and> (positions \<noteq> [] \<longrightarrow> set (map cluster_id (clusters out)) = set labels - {- 1})
          \<and> (\<forall>c\<in>set (clusters out).
                cluster_id c \<noteq> - 1
              \<and> document_indices c = filter (\<lambda>i. labels ! i = cluster_id c) [0..<length labels]
              \<and> document_indices c \<noteq> []
              \<and> (\<forall>i\<in>set (document_indices c). i < length positions)
              \<and> cluster_size c = length (document_indices c)
              \<and> center c = mean_position positions (document_indices c))"
    if h: "docs \<noteq> [] \<and> embeddings \<noteq> [] \<and> organize_spatial_layout L docs embeddings = Inr out"
  proof -
    from h obtain positions labels conns cs where
      p: "calculate_3d_positions L embeddings ''pca'' = Inr positions"
      and l: "cluster_documents L embeddings ''hdbscan'' None = Inr labels"
      and c: "calculate_cluster_info positions labels = Inr cs"
      and out: "clusters out = cs"
      by (auto simp: organize_spatial_layout_def Let_def split: sum.splits)
    from calculate_cluster_info_spec [OF c] p l show ?thesis
      unfolding out by blast
  qed
  from e1 e2 main show ?thesis by blast
qed


lemma sqrt_225: "sqrt 225 = 15"
  using real_sqrt_abs [of 15] by simp

lemma four_docs_norms:
  "linalg_norm [0, 0] = 0" "linalg_norm [6, 8] = 10" "linalg_norm [- 9, - 12] = 15"
  "linalg_norm [0, 0, 0] = 0" "linalg_norm [3, 4, 0] = 5" "linalg_norm [6, 8, 0] = 10"
  "linalg_norm [- 9, - 12, 0] = 15"
  by (simp_all add: linalg_norm_def sqrt_25 sqrt_100 sqrt_225)

lemma four_docs_array:
  "np_array [[0, 0], [3, 4], [6, 8], [- 9, - 12]] = Inr [[0, 0], [3, 4], [6, 8], [- 9, - 12]]"
  by (simp add: np_array_def)

lemma four_docs_pca:
  "pca_positions example_sklearn [[0, 0], [3, 4], [6, 8], [- 9, - 12]] =
     Inr [[0, 0, 0], [3, 4, 0], [6, 8, 0], [- 9, - 12, 0]]"
  by (simp add: pca_positions_def example_sklearn_def shape1_def np_hstack_def np_zeros_def
      numeral_eq_Suc)

lemma four_docs_centred:
  "centred [[0, 0, 0], [3, 4, 0], [6, 8, 0], [- 9, - 12, 0]] =
     [[0, 0, 0], [3, 4, 0], [6, 8, 0], [- 9, - 12, 0]]"
  by (simp add: centred_def sub_rows_def mean_axis0_def shape1_def upt_rec numeral_3_eq_3)

lemma four_docs_normalized:
  "normalize_positions [[0, 0, 0], [3, 4, 0], [6, 8, 0], [- 9, - 12, 0]] =
     Inr [[0, 0, 0], [2, 8 / 3, 0], [4, 16 / 3, 0], [- 6, - 8, 0]]"
  by (simp add: normalize_positions_def np_size_def shape1_def four_docs_centred max_dist_of_def
      four_docs_norms scale_rows_def)

lemma four_docs_positions:
  "calculate_3d_positions example_sklearn [[0, 0], [3, 4], [6, 8], [- 9, - 12]] ''pca'' =
     Inr [\<lparr>pos_x = 0, pos_y = 0, pos_z = 0\<rparr>, \<lparr>pos_x = 2, pos_y = 8 / 3, pos_z = 0\<rparr>,
          \<lparr>pos_x = 4, pos_y = 16 / 3, pos_z = 0\<rparr>, \<lparr>pos_x = - 6, pos_y = - 8, pos_z = 0\<rparr>]"
  by (simp add: calculate_3d_positions_def four_docs_array projected_positions_def four_docs_pca
      four_docs_normalized)

lemma four_docs_labels:
  "cluster_documents example_sklearn [[0, 0], [3, 4], [6, 8], [- 9, - 12]] ''hdbscan'' None =
     Inr [0, 1, 1, - 1]"
  by (simp add: cluster_documents_def four_docs_array kmeans_requested_def HAS_HDBSCAN_def
      example_sklearn_def)

lemma four_docs_connections:
  "calculate_connections [[0, 0], [3, 4], [6, 8], [- 9, - 12]] (8 / 10) =
     Inr [\<lparr>source = 1, target = 2, strength = 1\<rparr>]"
  by (simp add: calculate_connections_def four_docs_array upt_rec cosine_similarity_def
      np_dot_def four_docs_norms norm_3_4 np_clip_def)

lemma four_docs_cluster_info:
  "calculate_cluster_info
     [\<lparr>pos_x = 0, pos_y = 0, pos_z = 0\<rparr>, \<lparr>pos_x = 2, pos_y = 8 / 3, pos_z = 0\<rparr>,
      \<lparr>pos_x = 4, pos_y = 16 / 3, pos_z = 0\<rparr>, \<lparr>pos_x = - 6, pos_y = - 8, pos_z = 0\<rparr>]
     [0, 1, 1, - 1] =
   Inr [\<lparr>cluster_id = 0, center = \<lparr>pos_x = 0, pos_y = 0, pos_z = 0\<rparr>, cluster_size = 1,
         document_indices = [0]\<rparr>,
        \<lparr>cluster_id = 1, center = \<lparr>pos_x = 3, pos_y = 4, pos_z = 0\<rparr>, cluster_size = 2,
         document_indices = [1, 2]\<rparr>]"
  by (simp add: calculate_cluster_info_def enumerate_eq_zip upt_rec row_of_position_def
      summary_of_def mean_axis0_def shape1_def numeral_3_eq_3)

lemma four_docs_layout:
  "organize_spatial_layout example_sklearn [''a'', ''b'', ''c'', ''d'']
     [[0, 0], [3, 4], [6, 8], [- 9, - 12]] =
   Inr \<lparr>documents =
          [(''a'', \<lparr>pos_x = 0, pos_y = 0, pos_z = 0\<rparr>, 0),
           (''b'', \<lparr>pos_x = 2, pos_y = 8 / 3, pos_z = 0\<rparr>, 1),
           (''c'', \<lparr>pos_x = 4, pos_y = 16 / 3, pos_z = 0\<rparr>, 1),
           (''d'', \<lparr>pos_x = - 6, pos_y = - 8, pos_z = 0\<rparr>, - 1)],
        clusters =
          [\<lparr>cluster_id = 0, center = \<lparr>pos_x = 0, pos_y = 0, pos_z = 0\<rparr>, cluster_size = 1,
            document_indices = [0]\<rparr>,
           \<lparr>cluster_id = 1, center = \<lparr>pos_x = 3, pos_y = 4, pos_z = 0\<rparr>, cluster_size = 2,
            document_indices = [1, 2]\<rparr>],
        connections = [\<lparr>source = 1, target = 2, strength = 1\<rparr>]\<rparr>"
  using four_docs_connections
  by (simp add: organize_spatial_layout_def four_docs_positions four_docs_labels
      four_docs_cluster_info enumerate_eq_zip upt_rec)


theorem organize_spatial_layout_summaries_witness:
  "organize_spatial_layout example_sklearn ([] :: string list)
     [[0, 0], [3, 4], [6, 8], [- 9, - 12]] =
     Inr \<lparr>documents = [], clusters = [], connections = []\<rparr>
   \<and> organize_spatial_layout example_sklearn [''a'', ''b'', ''c'', ''d''] [] =
     Inr \<lparr>documents = [], clusters = [], connections = []\<rparr>
   \<and> organize_spatial_layout example_sklearn [''a'', ''b'', ''c'', ''d'']
     [[0, 0], [3, 4], [6, 8], [- 9, - 12]] =
     Inr \<lparr>documents =
          [(''a'', \<lparr>pos_x = 0, pos_y = 0, pos_z = 0\<rparr>, 0),
           (''b'', \<lparr>pos_x = 2, pos_y = 8 / 3, pos_z = 0\<rparr>, 1),
           (''c'', \<lparr>pos_x = 4, pos_y = 16 / 3, pos_z = 0\<rparr>, 1),
           (''d'', \<lparr>pos_x = - 6, pos_y = - 8, pos_z = 0\<rparr>, - 1)],
        clusters =
          [\<lparr>cluster_id = 0, center = \<lparr>pos_x = 0, pos_y = 0, pos_z = 0\<rparr>, cluster_size = 1,
            document_indices = [0]\<rparr>,
           \<lparr>cluster_id = 1, center = \<lparr>pos_x = 3, pos_y = 4, pos_z = 0\<rparr>, cluster_size = 2,
            document_indices = [1, 2]\<rparr>],
        connections = [\<lparr>source = 1, target = 2, strength = 1\<rparr>]\<rparr>
   \<and> mean_position
       [\<lparr>pos_x = 0, pos_y = 0, pos_z = 0\<rparr>, \<lparr>pos_x = 2, pos_y = 8 / 3, pos_z = 0\<rparr>,
        \<lparr>pos_x = 4, pos_y = 16 / 3, pos_z = 0\<rparr>, \<lparr>pos_x = - 6, pos_y = - 8, pos_z = 0\<rparr>]
       [1, 2] = \<lparr>pos_x = 3, pos_y = 4, pos_z = 0\<rparr>
   \<and> (\<exists>positions labels.
         calculate_3d_positions example_sklearn [[0, 0], [3, 4], [6, 8], [- 9, - 12]] ''pca'' =
           Inr positions
       \<and> cluster_documents example_sklearn [[0, 0], [3, 4], [6, 8], [- 9, - 12]] ''hdbscan'' None =
           Inr labels
       \<and> set labels - {- 1} = {0, 1})"
proof -
  have mean: "mean_position
       [\<lparr>pos_x = 0, pos_y = 0, pos_z = 0\<rparr>, \<lparr>pos_x = 2, pos_y = 8 / 3, pos_z = 0\<rparr>,
        \<lparr>pos_x = 4, pos_y = 16 / 3, pos_z = 0\<rparr>, \<lparr>pos_x = - 6, pos_y = - 8, pos_z = 0\<rparr>]
       [1, 2] = \<lparr>pos_x = 3, pos_y = 4, pos_z = 0\<rparr>"
    by (simp add: mean_position_def centroid_def)
  from organize_spatial_layout_summaries [of example_sklearn
      "[[0, 0], [3, 4], [6, 8], [- 9, - 12]]" "[''a'', ''b'', ''c'', ''d'']"]
  have "organize_spatial_layout example_sklearn ([] :: string list)
     [[0, 0], [3, 4], [6, 8], [- 9, - 12]] =
     Inr \<lparr>documents = [], clusters = [], connections = []\<rparr>
   \<and> organize_spatial_layout example_sklearn [''a'', ''b'', ''c'', ''d''] [] =
     Inr \<lparr>documents = [], clusters = [], connections = []\<rparr>"
    by blast
  moreover have "\<exists>positions labels.
         calculate_3d_positions example_sklearn [[0, 0], [3, 4], [6, 8], [- 9, - 12]] ''pca'' =
           Inr positions
       \<and> cluster_documents example_sklearn [[0, 0], [3, 4], [6, 8], [- 9, - 12]] ''hdbscan'' None =
           Inr labels
       \<and> set labels - {- 1} = {0, 1}"
  proof -
    obtain out where out: "organize_spatial_layout example_sklearn [''a'', ''b'', ''c'', ''d'']
        [[0, 0], [3, 4], [6, 8], [- 9, - 12]] = Inr out"
      and cl: "map cluster_id (clusters out) = [0, 1]"
      by (simp add: four_docs_layout)
    from organize_spatial_layout_summaries [of example_sklearn
        "[[0, 0], [3, 4], [6, 8], [- 9, - 12]]" "[''a'', ''b'', ''c'', ''d'']" out] out
    obtain positions labels where
      p: "calculate_3d_positions example_sklearn [[0, 0], [3, 4], [6, 8], [- 9, - 12]] ''pca'' =
           Inr positions"
      and l: "cluster_documents example_sklearn [[0, 0], [3, 4], [6, 8], [- 9, - 12]] ''hdbscan'' None =
           Inr labels"
      and s: "positions \<noteq> [] \<longrightarrow> set (map cluster_id (clusters out)) = set labels - {- 1}"
      by auto
    from p have "positions \<noteq> []" by (auto simp: four_docs_positions)
    with s cl have "set labels - {- 1} = {0, 1}" by auto
    with p l show ?thesis by blast
  qed
  ultimately show ?thesis
    using mean by (simp only: four_docs_layout simp_thms)
qed

end
